theory Spec2Isabelle
  imports Complex_Main "HOL-Library.Word" "HOL-Library.AList"
begin

section \<open>JavaScript values used by the trace viewer\<close>

text \<open>
  Exceptions are values. \<open>Error msg\<close> is \<^verbatim>\<open>new Error(msg)\<close>; \<open>TypeError\<close> is what the
  runtime raises when a property of \<^verbatim>\<open>undefined\<close> is read; \<open>AssertionFailed\<close> is the error
  of the assertion helpers.
\<close>

datatype js_error = Error string | TypeError | AssertionFailed

text \<open>
  \<^verbatim>\<open>bigint\<close> (the types \<^verbatim>\<open>TPTime\<close> and \<^verbatim>\<open>TPDuration\<close>) is \<open>int\<close>. Its \<^verbatim>\<open>/\<close> and
  \<^verbatim>\<open>%\<close> truncate towards zero, unlike \<open>div\<close> and \<open>mod\<close>; SQLite's integer \<^verbatim>\<open>/\<close>
  truncates the same way.
\<close>

definition bigint_div :: "int \<Rightarrow> int \<Rightarrow> int" where
  "bigint_div a b = sgn a * sgn b * (\<bar>a\<bar> div \<bar>b\<bar>)"

definition bigint_rem :: "int \<Rightarrow> int \<Rightarrow> int" where
  "bigint_rem a b = a - b * bigint_div a b"

text \<open>
  Modelled from the spec: \<^verbatim>\<open>BigintMath\<close> (base/bigint_math) is not part of the sources.
  \<^verbatim>\<open>BIMath.max\<close> is "the larger of" its arguments and \<^verbatim>\<open>BIMath.quant\<close> the
  "round-to-nearest quantization" to a multiple of the step.
\<close>

definition BIMath_max :: "int \<Rightarrow> int \<Rightarrow> int" where
  "BIMath_max a b = (if a > b then a else b)"

definition BIMath_quant :: "int \<Rightarrow> int \<Rightarrow> int" where
  "BIMath_quant n stepSize =
     (let step = BIMath_max 1 stepSize; halfStep = bigint_div step 2
      in step * bigint_div (n + halfStep) step)"

text \<open>
  Typed arrays: a write to a \<^verbatim>\<open>BigInt64Array\<close> keeps the low 64 bits of the bigint
  (\<open>word_of_int\<close>), a read gives the two's-complement value back (\<open>sint\<close>); a
  \<^verbatim>\<open>Uint16Array\<close> keeps the low 16 bits and reads unsigned.
\<close>

type_synonym BigInt64Array = "64 word list"
type_synonym Uint16Array = "16 word list"

definition fits_int64 :: "int \<Rightarrow> bool" where
  "fits_int64 v \<longleftrightarrow> - (2 ^ 63) \<le> v \<and> v < 2 ^ 63"

text \<open>
  A \<^verbatim>\<open>number\<close> is a double: a finite value, an infinity or \<^verbatim>\<open>NaN\<close>. \<open>Finite r\<close> is the
  double whose value is the real \<open>r\<close>; the two zeros are one value, as they are for
  \<^verbatim>\<open>===\<close>. \<^verbatim>\<open>Math.floor\<close> is exact: the floor of a double is a double.
\<close>

datatype number = Finite real | PosInfinity | NegInfinity | NaN


text \<open>
  The arithmetic of numbers rounds its results to doubles, and \<^verbatim>\<open>Number\<close> and \<^verbatim>\<open>String\<close>
  convert between a number and its text. They belong to the JavaScript runtime and not
  to the program: the functions that use them take the runtime as their first argument,
  and what is proved of them holds for every runtime.
\<close>

record Runtime =
  number_add :: "number \<Rightarrow> number \<Rightarrow> number"
  number_sub :: "number \<Rightarrow> number \<Rightarrow> number"
  number_mul :: "number \<Rightarrow> number \<Rightarrow> number"
  number_div :: "number \<Rightarrow> number \<Rightarrow> number"
  Number :: "string \<Rightarrow> number"
  String :: "number \<Rightarrow> string"

section \<open>Track controllers (tracks/async\_slices, tracks/chrome\_slices)\<close>

text \<open>
  The columnar \<^verbatim>\<open>Data\<close> of both slice tracks. \<^verbatim>\<open>sliceIds\<close> is a \<^verbatim>\<open>Float64Array\<close> of
  integral ids, kept as \<open>int\<close>; \<^verbatim>\<open>cpuTimeRatio\<close> is a \<^verbatim>\<open>Float64Array\<close> that exists on
  Chrome slice tracks only.
\<close>

record Data =
  data_start :: int
  data_end :: int
  resolution :: int
  data_length :: nat
  strings :: "string list"
  sliceIds :: "int list"
  starts :: BigInt64Array
  ends :: BigInt64Array
  depths :: Uint16Array
  titles :: Uint16Array
  isInstant :: Uint16Array
  isIncomplete :: Uint16Array
  cpuTimeRatio :: "number list option"

text \<open>
  One row of the main query's result, as the row iterator hands it out: \<^verbatim>\<open>LONG\<close>
  columns are bigints, \<^verbatim>\<open>NUM\<close> columns integral numbers, \<^verbatim>\<open>LONG_NULL\<close> a bigint or
  \<^verbatim>\<open>null\<close>. \<open>threadDur\<close> is selected by the Chrome slice query only.
\<close>

record SliceRow =
  row_tsq :: int
  row_ts :: int
  row_dur :: int
  row_depth :: int
  row_name :: string
  row_id :: int
  row_isInstant :: int
  row_isIncomplete :: int
  row_threadDur :: "int option"

text \<open>
  The first column of the main query, as both controllers write it into the SQL text:
  \<^verbatim>\<open>(ts + ${resolution / 2n}) / ${resolution} * ${resolution} as tsq\<close>.
\<close>

definition tsq_sql :: "int \<Rightarrow> int \<Rightarrow> int" where
  "tsq_sql res ts = bigint_div (ts + bigint_div res 2) res * res"

text \<open>
  The queries a controller sends, and the engine that answers them. The engine is an
  external service: \<open>maxDur_firstRow\<close> is the \<^verbatim>\<open>maxDur\<close> column of the probe's first row,
  \<open>slice_rows lo hi res\<close> the rows of the main query for \<^verbatim>\<open>ts >= lo and ts <= hi\<close> at
  resolution \<open>res\<close>.
\<close>

datatype query = MaxDurQuery | SlicesQuery int int int

record Engine =
  maxDur_firstRow :: "int option"
  slice_rows :: "int \<Rightarrow> int \<Rightarrow> int \<Rightarrow> SliceRow list"

record Controller =
  maxDurNs :: int

definition new_Controller :: Controller where
  "new_Controller = \<lparr>maxDurNs = 0\<rparr>"

text \<open>\<^verbatim>\<open>this.maxDurNs = result.firstRow({maxDur: LONG_NULL}).maxDur || 0n\<close>\<close>

definition or_0n :: "int option \<Rightarrow> int" where
  "or_0n v = (case v of None \<Rightarrow> 0 | Some d \<Rightarrow> if d = 0 then 0 else d)"

definition probe_maxDur :: "Engine \<Rightarrow> Controller \<Rightarrow> Controller \<times> query list" where
  "probe_maxDur eng c =
     (if maxDurNs c = 0
      then (c\<lparr>maxDurNs := or_0n (maxDur_firstRow eng)\<rparr>, [MaxDurQuery])
      else (c, []))"

text \<open>\<^verbatim>\<open>internString\<close>: the closure over \<^verbatim>\<open>slices.strings\<close> and the \<^verbatim>\<open>stringIndexes\<close> map.\<close>

definition internString ::
  "string \<Rightarrow> string list \<times> (string \<rightharpoonup> nat) \<Rightarrow> nat \<times> string list \<times> (string \<rightharpoonup> nat)" where
  "internString str st =
     (case snd st str of
        Some idx \<Rightarrow> (idx, st)
      | None \<Rightarrow>
          (let idx = length (fst st)
           in (idx, fst st @ [str], (snd st)(str \<mapsto> idx))))"

text \<open>
  The body of the row loop. \<open>chrome\<close> is \<open>None\<close> in the AsyncSlice controller and
  \<open>Some ratio\<close> in the Chrome slice controller, which also fills \<^verbatim>\<open>cpuTimeRatio\<close>;
  everything else is the same statement for statement. \<open>ratio threadDur dur\<close> is the
  number that
  \<^verbatim>\<open>Math.min(Math.round(BIMath.ratio(it.threadDur, it.dur) * 100) / 100, 1)\<close>
  evaluates to: \<^verbatim>\<open>BIMath.ratio\<close> is not part of the sources, and the expression is
  computed in doubles.
\<close>

type_synonym cpuTimeRatio_expr = "int \<Rightarrow> int \<Rightarrow> number"

definition cpuTimeRatio_of :: "cpuTimeRatio_expr \<Rightarrow> SliceRow \<Rightarrow> number" where
  "cpuTimeRatio_of ratio r =
     (case row_threadDur r of
        None \<Rightarrow> Finite 1
      | Some threadDur \<Rightarrow>
          if row_isInstant r = 0 \<and> row_isIncomplete r = 0
          then ratio threadDur (row_dur r)
          else Finite 1)"

definition put_row ::
  "cpuTimeRatio_expr option \<Rightarrow> int \<Rightarrow> nat \<Rightarrow> SliceRow \<Rightarrow> Data \<times> (string \<rightharpoonup> nat) \<Rightarrow>
   Data \<times> (string \<rightharpoonup> nat)" where
  "put_row chrome res row r st =
     (let slices = fst st;
          startQ = row_tsq r;
          start = row_ts r;
          dur = row_dur r;
          end = start + dur;
          minEnd = startQ + res;
          endQ = BIMath_max (BIMath_quant end res) minEnd;
          (title, strs, idx) = internString (row_name r) (strings slices, snd st)
      in (slices\<lparr>
            starts := (starts slices)[row := word_of_int startQ],
            ends := (ends slices)[row := word_of_int endQ],
            depths := (depths slices)[row := word_of_int (row_depth r)],
            titles := (titles slices)[row := word_of_nat title],
            strings := strs,
            sliceIds := (sliceIds slices)[row := row_id r],
            isInstant := (isInstant slices)[row := word_of_int (row_isInstant r)],
            isIncomplete := (isIncomplete slices)[row := word_of_int (row_isIncomplete r)],
            cpuTimeRatio :=
              (case chrome of
                 Some ratio \<Rightarrow>
                   map_option (\<lambda>cs. cs[row := cpuTimeRatio_of ratio r]) (cpuTimeRatio slices)
               | None \<Rightarrow> cpuTimeRatio slices)\<rparr>,
          idx))"

fun fill_rows ::
  "cpuTimeRatio_expr option \<Rightarrow> int \<Rightarrow> nat \<Rightarrow> SliceRow list \<Rightarrow> Data \<times> (string \<rightharpoonup> nat) \<Rightarrow>
   Data \<times> (string \<rightharpoonup> nat)" where
  "fill_rows chrome res row [] st = st"
| "fill_rows chrome res row (r # rs) st =
     fill_rows chrome res (Suc row) rs (put_row chrome res row r st)"

definition new_Data :: "cpuTimeRatio_expr option \<Rightarrow> int \<Rightarrow> int \<Rightarrow> int \<Rightarrow> nat \<Rightarrow> Data" where
  "new_Data chrome start end res numRows =
     \<lparr>data_start = start, data_end = end, resolution = res, data_length = numRows,
      strings = [],
      sliceIds = replicate numRows 0,
      starts = replicate numRows 0,
      ends = replicate numRows 0,
      depths = replicate numRows 0,
      titles = replicate numRows 0,
      isInstant = replicate numRows 0,
      isIncomplete = replicate numRows 0,
      cpuTimeRatio = (case chrome of
                        Some ratio \<Rightarrow> Some (replicate numRows (Finite 0))
                      | None \<Rightarrow> None)\<rparr>"

definition onBoundsChange ::
  "cpuTimeRatio_expr option \<Rightarrow> Engine \<Rightarrow> int \<Rightarrow> int \<Rightarrow> int \<Rightarrow> Controller \<Rightarrow> Controller \<times> query list \<times> Data" where
  "onBoundsChange chrome eng start end res c =
     (let (c1, probes) = probe_maxDur eng c;
          lo = start - maxDurNs c1;
          queryRes = slice_rows eng lo end res;
          numRows = length queryRes;
          slices = new_Data chrome start end res numRows
      in (c1, probes @ [SlicesQuery lo end res],
          fst (fill_rows chrome res 0 queryRes (slices, Map.empty))))"

definition AsyncSliceTrackController_onBoundsChange ::
  "Engine \<Rightarrow> int \<Rightarrow> int \<Rightarrow> int \<Rightarrow> Controller \<Rightarrow> Controller \<times> query list \<times> Data" where
  "AsyncSliceTrackController_onBoundsChange = onBoundsChange None"

definition ChromeSliceTrackController_onBoundsChange ::
  "cpuTimeRatio_expr \<Rightarrow> Engine \<Rightarrow> int \<Rightarrow> int \<Rightarrow> int \<Rightarrow> Controller \<Rightarrow>
   Controller \<times> query list \<times> Data" where
  "ChromeSliceTrackController_onBoundsChange ratio = onBoundsChange (Some ratio)"

text \<open>A controller's life: one \<^verbatim>\<open>onBoundsChange\<close> after the other, each call completed
  before the next starts. The result is every query sent, call by call.\<close>

fun bounds_changes ::
  "cpuTimeRatio_expr option \<Rightarrow> (Engine \<times> int \<times> int \<times> int) list \<Rightarrow> Controller \<Rightarrow> query list list" where
  "bounds_changes chrome [] c = []"
| "bounds_changes chrome ((eng, start, end, res) # reqs) c =
     (let (c1, qs, d) = onBoundsChange chrome eng start end res c
      in qs # bounds_changes chrome reqs c1)"

text \<open>
  What makes a result row an answer to the main query at resolution \<open>res\<close> that the
  64-bit columns can hold: \<open>tsq\<close> is the value of the query's first column, it is a
  \<^verbatim>\<open>LONG\<close>, and the quantized end stays below \<open>2 ^ 63\<close>.
\<close>

definition row_in_range :: "int \<Rightarrow> SliceRow \<Rightarrow> bool" where
  "row_in_range res r \<longleftrightarrow>
     row_tsq r = tsq_sql res (row_ts r) \<and> fits_int64 (row_tsq r) \<and>
     BIMath_max (BIMath_quant (row_ts r + row_dur r) res) (row_tsq r + res) < 2 ^ 63"

section \<open>Track renderer (ChromeSliceTrack)\<close>

text \<open>
  Pixel coordinates and the scale factor of a track are finite numbers, kept as the reals
  they are. \<^verbatim>\<open>HighPrecisionTime\<close> is a bigint with a fractional offset, kept as a real.
  The time scale and the window of \<^verbatim>\<open>globals.frontendLocalState\<close> are not part of the
  sources and are parameters. The rectangle of \<^verbatim>\<open>getSliceRect\<close> is written with the
  arithmetic of the reals: \<^verbatim>\<open>Math.max(d, 1)\<close> is at least 1 whatever the difference \<open>d\<close> of
  two doubles rounds to. The depth that \<^verbatim>\<open>getSliceIndex\<close> compares with the depths of
  the rows is computed by the runtime.
\<close>

definition DEFAULT_SLICE_HEIGHT :: real where "DEFAULT_SLICE_HEIGHT = 18"
definition TRACK_PADDING :: real where "TRACK_PADDING = 2"

record TimeScale =
  tpTimeToPx :: "int \<Rightarrow> real"
  pxToHpTime :: "real \<Rightarrow> real"
  pxDeltaToDuration :: "real \<Rightarrow> real"

record FrontendLocalState =
  visibleTimeScale :: TimeScale
  visibleWindowTime_start :: real
  visibleWindowTime_end :: real
  windowSpan_end :: real

record SliceRect =
  rect_left :: real
  rect_width :: real
  rect_top :: real
  rect_height :: real
  rect_visible :: bool

text \<open>\<open>scaleFactor\<close> is \<^verbatim>\<open>this.trackState.scaleFactor\<close>.\<close>

definition getSliceRect :: "FrontendLocalState \<Rightarrow> real \<Rightarrow> int \<Rightarrow> int \<Rightarrow> real \<Rightarrow> SliceRect" where
  "getSliceRect fls scaleFactor tStart tEnd depth =
     (let timeScale = visibleTimeScale fls;
          pxEnd = windowSpan_end fls;
          left = max (tpTimeToPx timeScale tStart) 0;
          right = min (tpTimeToPx timeScale tEnd) pxEnd;
          visible = (\<not> (visibleWindowTime_start fls > of_int tEnd \<or>
                         visibleWindowTime_end fls < of_int tStart));
          sliceHeight = DEFAULT_SLICE_HEIGHT * scaleFactor
      in \<lparr>rect_left = left,
          rect_width = max (right - left) 1,
          rect_top = TRACK_PADDING + depth * sliceHeight,
          rect_height = sliceHeight,
          rect_visible = visible\<rparr>)"


text \<open>
  "Slices are stored in a columnar fashion. All fields have the same length." The scan
  reads every column inside \<open>starts.length\<close>.
\<close>

definition same_length_columns :: "Data \<Rightarrow> bool" where
  "same_length_columns data \<longleftrightarrow>
     length (ends data) = length (starts data) \<and>
     length (depths data) = length (starts data) \<and>
     length (titles data) = length (starts data) \<and>
     length (sliceIds data) = length (starts data) \<and>
     length (isInstant data) = length (starts data) \<and>
     length (isIncomplete data) = length (starts data)"







section \<open>State and actions (common/actions.ts)\<close>

text \<open>
  A handler mutates a draft and returns, or throws. Its result is the draft it leaves
  (\<open>Inr\<close>), or the error together with the draft as it was when the error was thrown
  (\<open>Inl\<close>).
\<close>

type_synonym 's result = "(js_error \<times> 's) + 's"

text \<open>
  Modelled from the spec: the assertion helpers of base/logging are not part of the
  sources. \<^verbatim>\<open>assertTrue\<close> "fails fast" on a false condition, \<^verbatim>\<open>assertExists\<close> on a
  missing value, and hands the value back otherwise.
\<close>

definition assertTrue :: "bool \<Rightarrow> js_error option" where
  "assertTrue v = (if v then None else Some AssertionFailed)"

definition assertExists :: "'a option \<Rightarrow> js_error + 'a" where
  "assertExists v = (case v of None \<Rightarrow> Inl AssertionFailed | Some x \<Rightarrow> Inr x)"

text \<open>
  Modelled from the spec: \<^verbatim>\<open>SCROLLING_TRACK_GROUP\<close> is declared in common/state, which is
  not part of the sources. It is one fixed group name.
\<close>

definition SCROLLING_TRACK_GROUP :: string where
  "SCROLLING_TRACK_GROUP = ''ScrollingTracks''"

text \<open>
  The parts of \<^verbatim>\<open>State\<close> that the handlers below read or write; every other field is
  in the record's extension and is never touched. Objects used as dictionaries are
  association lists in insertion order.
\<close>

record TrackConfig =
  config_namespace :: "string option"
  config_trackId :: "int option"
  config_trackIds :: "int list option"

datatype TrackSortKey = PrimaryTrackSortKey int | ThreadTrackSortKey int int

record TrackState =
  track_id :: string
  track_engineId :: string
  track_kind :: string
  track_name :: string
  track_title :: "string option"
  track_description :: string
  track_trackSortKey :: TrackSortKey
  track_trackGroup :: "string option"
  track_labels :: "string list option"
  track_config :: TrackConfig

record TrackGroupState =
  group_id :: string
  group_engineId :: string
  group_name :: string
  group_description :: string
  group_collapsed :: bool
  group_tracks :: "string list"
  group_parentGroup :: "string option"
  group_subgroups :: "string list"

record AddTrackArgs =
  args_id :: "string option"
  args_engineId :: string
  args_kind :: string
  args_name :: string
  args_title :: "string option"
  args_trackSortKey :: TrackSortKey
  args_trackGroup :: "string option"
  args_labels :: "string list option"
  args_config :: TrackConfig

record AddTrackGroupArgs =
  gargs_id :: string
  gargs_engineId :: string
  gargs_name :: string
  gargs_collapsed :: bool
  gargs_summaryTrackId :: string
  gargs_parentGroup :: "string option"
  gargs_subgroups :: "string list"

datatype AddTrackLikeArgs = TrackArgs AddTrackArgs | TrackGroupArgs AddTrackGroupArgs

record Area =
  area_start :: int
  area_end :: int
  area_tracks :: "string list"

record AreaById = Area +
  area_id :: string

text \<open>A note is \<^verbatim>\<open>{noteType: 'DEFAULT', id, timestamp, color, text}\<close> or
  \<^verbatim>\<open>{noteType: 'AREA', id, areaId, color, text}\<close>.\<close>

datatype Note =
  DefaultNote string int string string
  | AreaNote string string string string

text \<open>The current selection: \<^verbatim>\<open>{kind: 'NOTE', id}\<close>, \<^verbatim>\<open>{kind: 'AREA', areaId, noteId?}\<close>, or
  one of the other kinds, which the handlers below only tell apart from these two.\<close>

datatype Selection =
  NOTE string
  | AREA string "string option"
  | OTHER string

record State =
  nextId :: string
  tracks :: "(string \<times> TrackState) list"
  trackGroups :: "(string \<times> TrackGroupState) list"
  scrollingTracks :: "string list"
  pinnedTracks :: "string list"
  uiTrackIdByTraceTrackId :: "(int \<times> string) list"
  filteredTracks :: "AddTrackLikeArgs list"
  areas :: "(string \<times> AreaById) list"
  "notes" :: "(string \<times> Note) list"
  currentSelection :: "Selection option"

text \<open>\<^verbatim>\<open>generateNextId\<close>: the result is the new id and the draft that stores it.\<close>

definition generateNextId :: "Runtime \<Rightarrow> 'a State_scheme \<Rightarrow> string \<times> 'a State_scheme" where
  "generateNextId rt draft =
     (let next = String rt (number_add rt (Number rt (nextId draft)) (Finite 1))
      in (next, draft\<lparr>nextId := next\<rparr>))"

text \<open>The helper \<^verbatim>\<open>removeTrack(state, trackId)\<close>. \<^verbatim>\<open>arr.splice(arr.indexOf(x), 1)\<close> behind
  the test \<^verbatim>\<open>index !== -1\<close> takes the first \<open>x\<close> out: \<open>remove1\<close>.\<close>

definition removeTrack :: "'a State_scheme \<Rightarrow> string \<Rightarrow> 'a State_scheme result" where
  "removeTrack state trackId =
     (let s1 = state\<lparr>tracks := AList.delete trackId (tracks state)\<rparr>
      in case map_of (tracks state) trackId of
           None \<Rightarrow> Inl (TypeError, s1)
         | Some track \<Rightarrow>
             let unpin = (\<lambda>s. s\<lparr>pinnedTracks := filter (\<lambda>i. i \<noteq> trackId) (pinnedTracks s)\<rparr>)
             in if track_trackGroup track = Some SCROLLING_TRACK_GROUP
                then Inr (unpin (s1\<lparr>scrollingTracks := remove1 trackId (scrollingTracks s1)\<rparr>))
                else (case track_trackGroup track of
                        None \<Rightarrow> Inr (unpin s1)
                      | Some g \<Rightarrow>
                          (case map_of (trackGroups s1) g of
                             None \<Rightarrow> Inl (TypeError, s1)
                           | Some grp \<Rightarrow>
                               Inr (unpin (s1\<lparr>trackGroups :=
                                      AList.update g
                                        (grp\<lparr>group_tracks := remove1 trackId (group_tracks grp)\<rparr>)
                                        (trackGroups s1)\<rparr>)))))"

text \<open>
  Modelled from the spec: \<^verbatim>\<open>remove\<close> of base/array\_utils is not part of the sources. By
  its name and its use, \<^verbatim>\<open>remove(array, value)\<close> takes the value out of the array.
\<close>

definition array_remove :: "'a list \<Rightarrow> 'a \<Rightarrow> 'a list" where
  "array_remove array v = remove1 v array"

text \<open>
  The helper \<^verbatim>\<open>removeTrackGroup(state, groupId)\<close>, in its two steps: the group leaves the
  \<^verbatim>\<open>subgroups\<close> of its parent, where \<^verbatim>\<open>parentGroup\<close> is a non-empty id of a group; then its
  key is deleted and it is unpinned.
\<close>

definition leaveParentGroup :: "'a State_scheme \<Rightarrow> string \<Rightarrow> 'a State_scheme result" where
  "leaveParentGroup state groupId =
     (case map_of (trackGroups state) groupId of
        None \<Rightarrow> Inl (TypeError, state)
      | Some trackGroup \<Rightarrow>
          let parent = (case group_parentGroup trackGroup of
                          None \<Rightarrow> None
                        | Some p \<Rightarrow> if p = [] then None
                                   else map_option (Pair p) (map_of (trackGroups state) p))
          in (case parent of
                None \<Rightarrow> Inr state
              | Some (p, pg) \<Rightarrow>
                  Inr (state\<lparr>trackGroups :=
                         AList.update p
                           (pg\<lparr>group_subgroups := array_remove (group_subgroups pg) groupId\<rparr>)
                           (trackGroups state)\<rparr>)))"

definition removeTrackGroup :: "'a State_scheme \<Rightarrow> string \<Rightarrow> 'a State_scheme result" where
  "removeTrackGroup state groupId =
     (case leaveParentGroup state groupId of
        Inl err \<Rightarrow> Inl err
      | Inr s1 \<Rightarrow>
          let s2 = s1\<lparr>trackGroups := AList.delete groupId (trackGroups s1)\<rparr>
          in Inr (s2\<lparr>pinnedTracks := filter (\<lambda>i. i \<noteq> groupId) (pinnedTracks s2)\<rparr>))"

definition cleanUiTrackId :: "string \<Rightarrow> int \<Rightarrow> 'a State_scheme \<Rightarrow> 'a State_scheme" where
  "cleanUiTrackId uiTrackId trackId state =
     (if map_of (uiTrackIdByTraceTrackId state) trackId = Some uiTrackId
      then state\<lparr>uiTrackIdByTraceTrackId := AList.delete trackId (uiTrackIdByTraceTrackId state)\<rparr>
      else state)"

definition updateUiTrackIdByTraceTrackId ::
  "TrackState \<Rightarrow> string \<Rightarrow> (string \<Rightarrow> int \<Rightarrow> 's \<Rightarrow> 's) \<Rightarrow> 's \<Rightarrow> 's" where
  "updateUiTrackIdByTraceTrackId trackState uiTrackId updater state =
     (case config_namespace (track_config trackState) of
        Some ns \<Rightarrow> state
      | None \<Rightarrow>
          (case config_trackId (track_config trackState) of
             Some trackId \<Rightarrow> updater uiTrackId trackId state
           | None \<Rightarrow>
               (case config_trackIds (track_config trackState) of
                  Some trackIds \<Rightarrow> fold (updater uiTrackId) trackIds state
                | None \<Rightarrow> state)))"

definition cleanUiTrackIdByTraceTrackId ::
  "'a State_scheme \<Rightarrow> TrackState \<Rightarrow> string \<Rightarrow> 'a State_scheme" where
  "cleanUiTrackIdByTraceTrackId state trackState uiTrackId =
     updateUiTrackIdByTraceTrackId trackState uiTrackId cleanUiTrackId state"

text \<open>
  \<^verbatim>\<open>StateActions.removeTrack\<close>. The call of \<^verbatim>\<open>dropTables\<close> that ends it starts queries
  against the engine and leaves the draft alone.
\<close>

definition StateActions_removeTrack :: "'a State_scheme \<Rightarrow> string \<Rightarrow> 'a State_scheme result" where
  "StateActions_removeTrack state trackId =
     (case map_of (tracks state) trackId of
        None \<Rightarrow> Inr state
      | Some track \<Rightarrow>
          (case removeTrack state trackId of
             Inl err \<Rightarrow> Inl err
           | Inr s1 \<Rightarrow>
               let s2 = cleanUiTrackIdByTraceTrackId s1 track trackId;
                   id_field = (if track_trackGroup track \<noteq> Some SCROLLING_TRACK_GROUP \<and>
                            list_ex (\<lambda>group. group_tracks group \<noteq> [] \<and>
                                       hd (group_tracks group) = track_id track)
                              (map snd (trackGroups s2))
                         then Some (track_id track) else None)
               in Inr (s2\<lparr>filteredTracks := filteredTracks s2 @
                         [TrackArgs \<lparr>args_id = id_field,
                            args_engineId = track_engineId track,
                            args_kind = track_kind track,
                            args_name = track_name track,
                            args_title = track_title track,
                            args_trackSortKey = track_trackSortKey track,
                            args_trackGroup = track_trackGroup track,
                            args_labels = track_labels track,
                            args_config = track_config track\<rparr>]\<rparr>)))"

text \<open>
  \<^verbatim>\<open>StateActions.removeTrackGroup\<close>. Its \<^verbatim>\<open>trackGroup\<close> is a draft of the group, read
  again after the removals: it is the group as the helper leaves it before it deletes
  the key.
\<close>

definition trackGroup_draft ::
  "'a State_scheme \<Rightarrow> string \<Rightarrow> TrackGroupState \<Rightarrow> TrackGroupState" where
  "trackGroup_draft s1 groupId g0 =
     (case leaveParentGroup s1 groupId of
        Inl err \<Rightarrow> g0
      | Inr s \<Rightarrow> (case map_of (trackGroups s) groupId of None \<Rightarrow> g0 | Some g \<Rightarrow> g))"

definition StateActions_removeTrackGroup ::
  "'a State_scheme \<Rightarrow> string \<Rightarrow> string \<Rightarrow> 'a State_scheme result" where
  "StateActions_removeTrackGroup state groupId summaryTrackId =
     (case map_of (trackGroups state) groupId of
        None \<Rightarrow> Inr state
      | Some g0 \<Rightarrow>
          (case StateActions_removeTrack state summaryTrackId of
             Inl err \<Rightarrow> Inl err
           | Inr s1 \<Rightarrow>
               (case removeTrackGroup s1 groupId of
                  Inl err \<Rightarrow> Inl err
                | Inr s2 \<Rightarrow>
                    let trackGroup = trackGroup_draft s1 groupId g0
                    in Inr (s2\<lparr>filteredTracks := filteredTracks s2 @
                              [TrackGroupArgs \<lparr>gargs_id = group_id trackGroup,
                                 gargs_engineId = group_engineId trackGroup,
                                 gargs_name = group_name trackGroup,
                                 gargs_collapsed = group_collapsed trackGroup,
                                 gargs_summaryTrackId = summaryTrackId,
                                 gargs_parentGroup = group_parentGroup trackGroup,
                                 gargs_subgroups = group_subgroups trackGroup\<rparr>]\<rparr>))))"

text \<open>
  \<^verbatim>\<open>StateActions.toggleTrackPinned\<close>. Unpinned and in the scrolling group, the track
  leaves \<^verbatim>\<open>scrollingTracks\<close> by \<^verbatim>\<open>splice(indexOf(id), 1)\<close> with no test of the index:
  \<^verbatim>\<open>splice(-1, 1)\<close> takes the last element out.
\<close>

definition StateActions_toggleTrackPinned ::
  "'a State_scheme \<Rightarrow> string \<Rightarrow> 'a State_scheme result" where
  "StateActions_toggleTrackPinned state trackId =
     (let isPinned = (trackId \<in> set (pinnedTracks state))
      in case assertExists (map_of (tracks state) trackId) of
           Inl err \<Rightarrow> Inl (err, state)
         | Inr track \<Rightarrow>
             let trackGroup = track_trackGroup track
             in if isPinned then
                  let s1 = state\<lparr>pinnedTracks := remove1 trackId (pinnedTracks state)\<rparr>
                  in if trackGroup = Some SCROLLING_TRACK_GROUP
                     then Inr (s1\<lparr>scrollingTracks := trackId # scrollingTracks s1\<rparr>)
                     else Inr s1
                else
                  let s1 = (if trackGroup = Some SCROLLING_TRACK_GROUP
                            then state\<lparr>scrollingTracks :=
                                   (if trackId \<in> set (scrollingTracks state)
                                    then remove1 trackId (scrollingTracks state)
                                    else butlast (scrollingTracks state))\<rparr>
                            else state)
                  in Inr (s1\<lparr>pinnedTracks := pinnedTracks s1 @ [trackId]\<rparr>))"

text \<open>
  The note and area handlers. \<open>rc\<close> is the colour that \<^verbatim>\<open>randomColor()\<close> returns where
  the handler calls it.
\<close>

definition StateActions_removeNote :: "'a State_scheme \<Rightarrow> string \<Rightarrow> 'a State_scheme result" where
  "StateActions_removeNote state nid =
     (if map_of (notes state) nid = None then Inr state
      else
        let s1 = state\<lparr>notes := AList.delete nid (notes state)\<rparr>
        in case currentSelection s1 of
             None \<Rightarrow> Inr s1
           | Some (NOTE i) \<Rightarrow> if i = nid then Inr (s1\<lparr>currentSelection := None\<rparr>) else Inr s1
           | Some (AREA areaId noteId) \<Rightarrow>
               if noteId = Some nid then Inr (s1\<lparr>currentSelection := Some (AREA areaId None)\<rparr>)
               else Inr s1
           | Some (OTHER kind) \<Rightarrow> Inr s1)"

definition StateActions_markCurrentArea ::
  "Runtime \<Rightarrow> 'a State_scheme \<Rightarrow> string \<Rightarrow> bool \<Rightarrow> 'a State_scheme result" where
  "StateActions_markCurrentArea rt state color persistent =
     (case currentSelection state of
        Some (AREA areaId noteId) \<Rightarrow>
          let (nid, s1) = (if persistent then generateNextId rt state else (''0'', state));
              color1 = (if persistent then color else ''#344596'')
          in Inr (s1\<lparr>notes := AList.update nid (AreaNote nid areaId color1 []) (notes s1),
                     currentSelection := Some (AREA areaId (Some nid))\<rparr>)
      | _ \<Rightarrow> Inr state)"

definition StateActions_toggleMarkCurrentArea ::
  "Runtime \<Rightarrow> 'a State_scheme \<Rightarrow> bool \<Rightarrow> string \<Rightarrow> 'a State_scheme result" where
  "StateActions_toggleMarkCurrentArea rt state persistent rc =
     (case currentSelection state of
        Some (AREA areaId (Some noteId)) \<Rightarrow> StateActions_removeNote state noteId
      | _ \<Rightarrow> StateActions_markCurrentArea rt state rc persistent)"

definition StateActions_markArea ::
  "Runtime \<Rightarrow> 'a State_scheme \<Rightarrow> Area \<Rightarrow> bool \<Rightarrow> string \<Rightarrow> 'a State_scheme result" where
  "StateActions_markArea rt state area persistent rc =
     (case assertTrue (area_start area \<le> area_end area) of
        Some err \<Rightarrow> Inl (err, state)
      | None \<Rightarrow>
          let (areaId, s1) = generateNextId rt state;
              s2 = s1\<lparr>areas := AList.update areaId
                      \<lparr>area_start = area_start area, area_end = area_end area,
                       area_tracks = area_tracks area, area_id = areaId\<rparr> (areas s1)\<rparr>;
              (noteId, s3) = (if persistent then generateNextId rt s2 else (''0'', s2));
              color = (if persistent then rc else ''#344596'')
          in Inr (s3\<lparr>notes := AList.update noteId (AreaNote noteId areaId color []) (notes s3)\<rparr>))"

definition StateActions_selectArea ::
  "Runtime \<Rightarrow> 'a State_scheme \<Rightarrow> Area \<Rightarrow> 'a State_scheme result" where
  "StateActions_selectArea rt state area =
     (case assertTrue (area_start area \<le> area_end area) of
        Some err \<Rightarrow> Inl (err, state)
      | None \<Rightarrow>
          let (areaId, s1) = generateNextId rt state
          in Inr (s1\<lparr>areas := AList.update areaId
                       \<lparr>area_start = area_start area, area_end = area_end area,
                        area_tracks = area_tracks area, area_id = areaId\<rparr> (areas s1),
                     currentSelection := Some (AREA areaId None)\<rparr>))"

definition StateActions_editArea ::
  "'a State_scheme \<Rightarrow> Area \<Rightarrow> string \<Rightarrow> 'a State_scheme result" where
  "StateActions_editArea state area areaId =
     (case assertTrue (area_start area \<le> area_end area) of
        Some err \<Rightarrow> Inl (err, state)
      | None \<Rightarrow>
          Inr (state\<lparr>areas := AList.update areaId
                   \<lparr>area_start = area_start area, area_end = area_end area,
                    area_tracks = area_tracks area, area_id = areaId\<rparr> (areas state)\<rparr>))"

definition StateActions_reSelectArea ::
  "'a State_scheme \<Rightarrow> string \<Rightarrow> string \<Rightarrow> 'a State_scheme result" where
  "StateActions_reSelectArea state areaId noteId =
     Inr (state\<lparr>currentSelection := Some (AREA areaId (Some noteId))\<rparr>)"

text \<open>
  Modelled from the spec: the Store that runs a handler on a draft is not part of the
  sources. It "commits the draft atomically"; an assertion "aborts the current action"
  and "must not corrupt the Store", which keeps its snapshot.
\<close>

definition Store_apply :: "('s \<Rightarrow> 's result) \<Rightarrow> 's \<Rightarrow> 's" where
  "Store_apply handler state = (case handler state of Inl err \<Rightarrow> state | Inr draft \<Rightarrow> draft)"

section \<open>The controller loop (runControllers)\<close>

text \<open>
  The two module-level maps, keyed by the globals context. \<open>invoke\<close> is the root
  controller's \<^verbatim>\<open>invoke()\<close>. It runs in the module as the loop hands it over, where it may
  do anything, call \<^verbatim>\<open>runControllers\<close> included; it returns whether to run again, or
  throws, and leaves the module (the controller in its map with it) as it has changed it.
\<close>

record 'c Controllers =
  rootControllerMap :: "(string \<times> 'c) list"
  runningControllersMap :: "(string \<times> bool) list"

type_synonym 'c invoke = "'c \<Rightarrow> 'c Controllers \<Rightarrow> (js_error + bool) \<times> 'c Controllers"

text \<open>
  The body of the loop after the test of \<open>iter\<close>: the flag is set, the controller is
  invoked, and \<^verbatim>\<open>finally\<close> clears the flag, whether \<^verbatim>\<open>invoke()\<close> has returned or thrown.
\<close>

definition runControllers_body ::
  "'c invoke \<Rightarrow> string \<Rightarrow> 'c Controllers \<Rightarrow> (js_error + bool) \<times> 'c Controllers" where
  "runControllers_body invoke globalsContext g =
     (let g1 = g\<lparr>runningControllersMap :=
                 AList.update globalsContext True (runningControllersMap g)\<rparr>;
          finally = (\<lambda>h. h\<lparr>runningControllersMap :=
                      AList.update globalsContext False (runningControllersMap h)\<rparr>)
      in case assertExists (map_of (rootControllerMap g1) globalsContext) of
           Inl err \<Rightarrow> (Inl err, finally g1)
         | Inr c \<Rightarrow> (case invoke c g1 of (runAgain, g2) \<Rightarrow> (runAgain, finally g2)))"

function runControllers_loop ::
  "'c invoke \<Rightarrow> string \<Rightarrow> nat \<Rightarrow> 'c Controllers \<Rightarrow> js_error option \<times> 'c Controllers" where
  "runControllers_loop invoke globalsContext iter g =
     (if iter > 100 then (Some (Error ''Controllers are stuck in a livelock''), g)
      else
        case runControllers_body invoke globalsContext g of
          (Inl err, g2) \<Rightarrow> (Some err, g2)
        | (Inr runAgain, g2) \<Rightarrow>
            if runAgain
            then runControllers_loop invoke globalsContext (Suc iter) g2
            else (None, g2))"
  by pat_completeness auto
termination
  by (relation "measure (\<lambda>(invoke, globalsContext, iter, g). 101 - iter)") auto

declare runControllers_loop.simps [simp del]

definition runControllers ::
  "'c invoke \<Rightarrow> string \<Rightarrow> 'c Controllers \<Rightarrow> js_error option \<times> 'c Controllers" where
  "runControllers invoke globalsContext g =
     (case map_of (runningControllersMap g) globalsContext of
        None \<Rightarrow> (Some (Error ''Unknown controller''), g)
      | Some runningControllers \<Rightarrow>
          if runningControllers then (Some (Error ''Re-entrant call detected''), g)
          else runControllers_loop invoke globalsContext 0 g)"

text \<open>The module after \<open>n\<close> runs of the loop's body, and what run number \<open>n\<close> (from 0)
  gives: the answer of \<^verbatim>\<open>invoke()\<close>, or the error thrown.\<close>

fun invoked :: "'c invoke \<Rightarrow> string \<Rightarrow> nat \<Rightarrow> 'c Controllers \<Rightarrow> 'c Controllers" where
  "invoked invoke globalsContext 0 g = g"
| "invoked invoke globalsContext (Suc n) g =
     invoked invoke globalsContext n (snd (runControllers_body invoke globalsContext g))"

definition invoke_result :: "'c invoke \<Rightarrow> string \<Rightarrow> nat \<Rightarrow> 'c Controllers \<Rightarrow> js_error + bool" where
  "invoke_result invoke globalsContext n g =
     fst (runControllers_body invoke globalsContext (invoked invoke globalsContext n g))"

text \<open>A root controller whose \<^verbatim>\<open>invoke()\<close> calls \<^verbatim>\<open>runControllers\<close> for its own context,
  with \<open>inner\<close> as the controller's behaviour in that nested run; an error of the nested
  call is not caught.\<close>

definition invoke_reentrant :: "'c invoke \<Rightarrow> string \<Rightarrow> 'c invoke" where
  "invoke_reentrant inner globalsContext c g =
     (case runControllers inner globalsContext g of
        (Some err, g1) \<Rightarrow> (Inl err, g1)
      | (None, g1) \<Rightarrow> (Inr False, g1))"

section \<open>Concrete inputs\<close>

text \<open>
  A runtime that computes exactly, reads a whole number from its decimal digits and
  writes it in decimal. On the inputs below every operand and every result is a whole
  number far below \<open>2 ^ 53\<close>, where doubles compute exactly too: there it is the
  JavaScript runtime.
\<close>

fun String_nat :: "nat \<Rightarrow> string" where
  "String_nat n =
     (if n < 10 then [''0123456789'' ! n]
      else String_nat (n div 10) @ [''0123456789'' ! (n mod 10)])"

declare String_nat.simps [simp del]

definition String_int :: "int \<Rightarrow> string" where
  "String_int i = (if i < 0 then CHR ''-'' # String_nat (nat (- i)) else String_nat (nat i))"

definition digit_of :: "char \<Rightarrow> nat option" where
  "digit_of c =
     map_of [(CHR ''0'', 0), (CHR ''1'', 1), (CHR ''2'', 2), (CHR ''3'', 3), (CHR ''4'', 4),
             (CHR ''5'', 5), (CHR ''6'', 6), (CHR ''7'', 7), (CHR ''8'', 8), (CHR ''9'', 9)] c"

fun Number_digits :: "nat \<Rightarrow> string \<Rightarrow> number" where
  "Number_digits n [] = Finite (of_nat n)"
| "Number_digits n (c # cs) =
     (case digit_of c of None \<Rightarrow> NaN | Some d \<Rightarrow> Number_digits (10 * n + d) cs)"

definition exact_div :: "number \<Rightarrow> number \<Rightarrow> number" where
  "exact_div a b =
     (case (a, b) of
        (Finite x, Finite y) \<Rightarrow>
          if y \<noteq> 0 then Finite (x / y)
          else if x = 0 then NaN else if 0 < x then PosInfinity else NegInfinity
      | _ \<Rightarrow> NaN)"

definition exact_op :: "(real \<Rightarrow> real \<Rightarrow> real) \<Rightarrow> number \<Rightarrow> number \<Rightarrow> number" where
  "exact_op f a b = (case (a, b) of (Finite x, Finite y) \<Rightarrow> Finite (f x y) | _ \<Rightarrow> NaN)"

definition exact_runtime :: Runtime where
  "exact_runtime =
     \<lparr>number_add = exact_op (+), number_sub = exact_op (-), number_mul = exact_op (*),
      number_div = exact_div,
      Number = (\<lambda>s. case s of [] \<Rightarrow> Finite 0 | c # cs \<Rightarrow> Number_digits 0 (c # cs)),
      String = (\<lambda>v. case v of Finite r \<Rightarrow> String_int \<lfloor>r\<rfloor> | _ \<Rightarrow> ''NaN'')\<rparr>"

text \<open>An engine holding one slice \<^verbatim>\<open>{ts: 995, dur: 20}\<close>, queried at resolution 10.\<close>

definition engine_one_slice :: Engine where
  "engine_one_slice =
     \<lparr>maxDur_firstRow = Some 20,
      slice_rows = (\<lambda>lo hi res.
        [\<lparr>row_tsq = 1000, row_ts = 995, row_dur = 20, row_depth = 0, row_name = ''a'',
          row_id = 1, row_isInstant = 0, row_isIncomplete = 0, row_threadDur = None\<rparr>])\<rparr>"

text \<open>An engine holding the slice \<^verbatim>\<open>{ts: 1000, dur: 20}\<close> and an instant at
  \<open>ts = 2 ^ 63 - 20\<close>, queried at resolution 16: the buckets are \<open>1008\<close> and
  \<open>2 ^ 63 - 16\<close>.\<close>

definition engine_two_slices :: Engine where
  "engine_two_slices =
     \<lparr>maxDur_firstRow = Some 20,
      slice_rows = (\<lambda>lo hi res.
        [\<lparr>row_tsq = 1008, row_ts = 1000, row_dur = 20, row_depth = 0, row_name = ''a'',
          row_id = 1, row_isInstant = 0, row_isIncomplete = 0, row_threadDur = None\<rparr>,
         \<lparr>row_tsq = 9223372036854775792, row_ts = 9223372036854775788, row_dur = 0,
          row_depth = 0, row_name = ''b'', row_id = 2, row_isInstant = 1,
          row_isIncomplete = 0, row_threadDur = None\<rparr>])\<rparr>"

text \<open>An engine holding one instant at \<open>ts = 2 ^ 63 - 20\<close>, queried at resolution 16:
  \<open>tsq = 2 ^ 63 - 16\<close>.\<close>

definition engine_late_slice :: Engine where
  "engine_late_slice =
     \<lparr>maxDur_firstRow = Some 0,
      slice_rows = (\<lambda>lo hi res.
        [\<lparr>row_tsq = 9223372036854775792, row_ts = 9223372036854775788, row_dur = 0,
          row_depth = 0, row_name = ''a'', row_id = 1, row_isInstant = 1,
          row_isIncomplete = 0, row_threadDur = None\<rparr>])\<rparr>"

text \<open>An engine for a track without slices: the probe's \<^verbatim>\<open>max(...)\<close> is \<^verbatim>\<open>NULL\<close>.\<close>

definition engine_no_slices :: Engine where
  "engine_no_slices = \<lparr>maxDur_firstRow = None, slice_rows = (\<lambda>lo hi res. [])\<rparr>"

text \<open>A time scale of one nanosecond per pixel from time 0, and a window that shows
  \<open>[0, 1004]\<close>.\<close>

definition unit_scale :: TimeScale where
  "unit_scale = \<lparr>tpTimeToPx = real_of_int, pxToHpTime = (\<lambda>x. x), pxDeltaToDuration = (\<lambda>x. x)\<rparr>"

definition window_1004 :: FrontendLocalState where
  "window_1004 = \<lparr>visibleTimeScale = unit_scale, visibleWindowTime_start = 0,
     visibleWindowTime_end = 1004, windowSpan_end = 1004\<rparr>"



text \<open>States: an empty one; one with a single scrolling track \<open>t1\<close>; one whose selection
  is area \<open>1\<close> marked by note \<open>2\<close>.\<close>

definition state_empty :: State where
  "state_empty = \<lparr>nextId = ''0'', tracks = [], trackGroups = [], scrollingTracks = [],
     pinnedTracks = [], uiTrackIdByTraceTrackId = [], filteredTracks = [], areas = [],
     notes = [], currentSelection = None\<rparr>"

definition track_t1 :: TrackState where
  "track_t1 = \<lparr>track_id = ''t1'', track_engineId = ''0'', track_kind = ''ChromeSliceTrack'',
     track_name = ''main'', track_title = None, track_description = ''main'',
     track_trackSortKey = PrimaryTrackSortKey 0, track_trackGroup = Some SCROLLING_TRACK_GROUP,
     track_labels = None,
     track_config = \<lparr>config_namespace = None, config_trackId = Some 5, config_trackIds = None\<rparr>\<rparr>"

definition state_one_track :: State where
  "state_one_track = state_empty\<lparr>tracks := [(''t1'', track_t1)], scrollingTracks := [''t1''],
     uiTrackIdByTraceTrackId := [(5, ''t1'')]\<rparr>"

definition state_marked :: State where
  "state_marked = state_empty\<lparr>nextId := ''2'',
     areas := [(''1'', \<lparr>area_start = 100, area_end = 200, area_tracks = [''t1''], area_id = ''1''\<rparr>)],
     notes := [(''2'', AreaNote ''2'' ''1'' ''#ff0000'' [])],
     currentSelection := Some (AREA ''1'' (Some ''2''))\<rparr>"

text \<open>The state after a non-persistent mark of \<open>[100, 200]\<close> in the empty state.\<close>

definition state_note_0 :: State where
  "state_note_0 = state_empty\<lparr>nextId := ''1'',
     areas := [(''1'', \<lparr>area_start = 100, area_end = 200, area_tracks = [''t1''], area_id = ''1''\<rparr>)],
     notes := [(''0'', AreaNote ''0'' ''1'' ''#344596'' [])]\<rparr>"

definition area_100_200 :: Area where
  "area_100_200 = \<lparr>area_start = 100, area_end = 200, area_tracks = [''t1'']\<rparr>"

definition area_200_100 :: Area where
  "area_200_100 = \<lparr>area_start = 200, area_end = 100, area_tracks = [''t1'']\<rparr>"

definition area_300_400 :: Area where
  "area_300_400 = \<lparr>area_start = 300, area_end = 400, area_tracks = [''t1'']\<rparr>"

text \<open>The empty state after \<^verbatim>\<open>editArea\<close> has written \<open>[100, 200]\<close> under the id \<open>1\<close>, and
  after \<^verbatim>\<open>reSelectArea\<close> has selected area \<open>1\<close> with the note id \<open>9\<close>.\<close>

definition state_edited :: State where
  "state_edited = state_empty\<lparr>
     areas := [(''1'', \<lparr>area_start = 100, area_end = 200, area_tracks = [''t1''], area_id = ''1''\<rparr>)]\<rparr>"

definition state_reselected :: State where
  "state_reselected = state_empty\<lparr>currentSelection := Some (AREA ''1'' (Some ''9''))\<rparr>"

text \<open>
  Root controllers for the context \<open>ui\<close> that count their invocations: one asks to run
  again twice, one always. \<open>controllers_at n\<close> is the module between two runs of the loop's
  body, after \<open>n\<close> invocations.
\<close>

definition invoke_thrice :: "nat invoke" where
  "invoke_thrice c g =
     (Inr (c < 2), g\<lparr>rootControllerMap := AList.update ''ui'' (Suc c) (rootControllerMap g)\<rparr>)"

definition invoke_forever :: "nat invoke" where
  "invoke_forever c g =
     (Inr True, g\<lparr>rootControllerMap := AList.update ''ui'' (Suc c) (rootControllerMap g)\<rparr>)"

definition controllers_at :: "nat \<Rightarrow> nat Controllers" where
  "controllers_at n = \<lparr>rootControllerMap = [(''ui'', n)], runningControllersMap = [(''ui'', False)]\<rparr>"

definition controllers_idle :: "nat Controllers" where
  "controllers_idle = controllers_at 0"

definition controllers_running :: "nat Controllers" where
  "controllers_running = \<lparr>rootControllerMap = [(''ui'', 0)], runningControllersMap = [(''ui'', True)]\<rparr>"

text \<open>A root controller that throws unless it finds the running flag of \<open>ui\<close> set, and
  is \<open>invoke_thrice\<close> otherwise.\<close>

definition invoke_if_running :: "nat invoke" where
  "invoke_if_running c g =
     (if map_of (runningControllersMap g) ''ui'' = Some True then invoke_thrice c g
      else (Inl (Error ''not running''), g))"

section \<open>Properties of the track controllers\<close>

subsection \<open>The columns that the row loop fills\<close>

lemma starts_put_row:
  "starts (fst (put_row ch res row r st)) = (starts (fst st))[row := word_of_int (row_tsq r)]"
  by (simp add: put_row_def Let_def split: prod.splits)

lemma ends_put_row:
  "ends (fst (put_row ch res row r st)) =
     (ends (fst st))[row := word_of_int
        (BIMath_max (BIMath_quant (row_ts r + row_dur r) res) (row_tsq r + res))]"
  by (simp add: put_row_def Let_def split: prod.splits)

lemma fill_rows_starts_length:
  "length (starts (fst (fill_rows ch res row rs st))) = length (starts (fst st))"
  by (induction rs arbitrary: row st) (simp_all add: starts_put_row)

lemma fill_rows_starts_below:
  "j < row \<Longrightarrow> starts (fst (fill_rows ch res row rs st)) ! j = starts (fst st) ! j"
  by (induction rs arbitrary: row st) (simp_all add: starts_put_row)

lemma fill_rows_ends_below:
  "j < row \<Longrightarrow> ends (fst (fill_rows ch res row rs st)) ! j = ends (fst st) ! j"
  by (induction rs arbitrary: row st) (simp_all add: ends_put_row)

lemma fill_rows_starts_nth:
  "i < length rs \<Longrightarrow> row + length rs \<le> length (starts (fst st)) \<Longrightarrow>
   starts (fst (fill_rows ch res row rs st)) ! (row + i) = word_of_int (row_tsq (rs ! i))"
proof (induction rs arbitrary: row st i)
  case Nil
  then show ?case by simp
next
  case (Cons r rs)
  show ?case
  proof (cases i)
    case 0
    with Cons.prems show ?thesis
      by (simp add: fill_rows_starts_below starts_put_row)
  next
    case (Suc k)
    with Cons.prems
      Cons.IH [where i = k and st = "put_row ch res row r st" and row = "Suc row"]
    show ?thesis
      by (simp add: starts_put_row)
  qed
qed

lemma fill_rows_ends_nth:
  "i < length rs \<Longrightarrow> row + length rs \<le> length (ends (fst st)) \<Longrightarrow>
   ends (fst (fill_rows ch res row rs st)) ! (row + i) =
     word_of_int (BIMath_max (BIMath_quant (row_ts (rs ! i) + row_dur (rs ! i)) res)
                             (row_tsq (rs ! i) + res))"
proof (induction rs arbitrary: row st i)
  case Nil
  then show ?case by simp
next
  case (Cons r rs)
  show ?case
  proof (cases i)
    case 0
    with Cons.prems show ?thesis
      by (simp add: fill_rows_ends_below ends_put_row)
  next
    case (Suc k)
    with Cons.prems
      Cons.IH [where i = k and st = "put_row ch res row r st" and row = "Suc row"]
    show ?thesis
      by (simp add: ends_put_row)
  qed
qed

lemma onBoundsChange_data:
  "snd (snd (onBoundsChange ch eng start end res c)) =
     fst (fill_rows ch res 0 (slice_rows eng (start - maxDurNs (fst (probe_maxDur eng c))) end res)
       (new_Data ch start end res
          (length (slice_rows eng (start - maxDurNs (fst (probe_maxDur eng c))) end res)),
        Map.empty))"
  by (simp add: onBoundsChange_def Let_def case_prod_beta)

lemma onBoundsChange_starts_length:
  "length (starts (snd (snd (onBoundsChange ch eng start end res c)))) =
     length (slice_rows eng (start - maxDurNs (fst (probe_maxDur eng c))) end res)"
  by (simp add: onBoundsChange_data fill_rows_starts_length new_Data_def)

lemma onBoundsChange_starts_nth:
  assumes "i < length (slice_rows eng (start - maxDurNs (fst (probe_maxDur eng c))) end res)"
  shows "starts (snd (snd (onBoundsChange ch eng start end res c))) ! i =
     word_of_int (row_tsq (slice_rows eng (start - maxDurNs (fst (probe_maxDur eng c))) end res ! i))"
proof -
  let ?rs = "slice_rows eng (start - maxDurNs (fst (probe_maxDur eng c))) end res"
  let ?st = "(new_Data ch start end res (length ?rs), Map.empty :: string \<rightharpoonup> nat)"
  have "0 + length ?rs \<le> length (starts (fst ?st))"
    by (simp add: new_Data_def)
  from fill_rows_starts_nth [OF assms this, of ch res] show ?thesis
    by (simp add: onBoundsChange_data)
qed

lemma onBoundsChange_ends_nth:
  assumes "i < length (slice_rows eng (start - maxDurNs (fst (probe_maxDur eng c))) end res)"
  shows "ends (snd (snd (onBoundsChange ch eng start end res c))) ! i =
     (let r = slice_rows eng (start - maxDurNs (fst (probe_maxDur eng c))) end res ! i
      in word_of_int (BIMath_max (BIMath_quant (row_ts r + row_dur r) res) (row_tsq r + res)))"
proof -
  let ?rs = "slice_rows eng (start - maxDurNs (fst (probe_maxDur eng c))) end res"
  let ?st = "(new_Data ch start end res (length ?rs), Map.empty :: string \<rightharpoonup> nat)"
  have "0 + length ?rs \<le> length (ends (fst ?st))"
    by (simp add: new_Data_def)
  from fill_rows_ends_nth [OF assms this, of ch res] show ?thesis
    by (simp add: onBoundsChange_data Let_def)
qed

lemma put_row_same_length_columns:
  "same_length_columns (fst st) \<Longrightarrow> same_length_columns (fst (put_row ch res row r st))"
  by (simp add: put_row_def same_length_columns_def Let_def split: prod.splits)

lemma fill_rows_same_length_columns:
  "same_length_columns (fst st) \<Longrightarrow> same_length_columns (fst (fill_rows ch res row rs st))"
  by (induction rs arbitrary: row st) (simp_all add: put_row_same_length_columns)

lemma onBoundsChange_same_length_columns:
  "same_length_columns (snd (snd (onBoundsChange ch eng start end res c)))"
proof -
  have "same_length_columns (fst (new_Data ch start end res n, m))" for n and m :: "string \<rightharpoonup> nat"
    by (simp add: same_length_columns_def new_Data_def)
  then show ?thesis
    by (simp only: onBoundsChange_data fill_rows_same_length_columns)
qed

subsection \<open>Bucket arithmetic\<close>

lemma sint_store64: "fits_int64 v \<Longrightarrow> sint (word_of_int v :: 64 word) = v"
  by (simp add: fits_int64_def sint_sbintrunc' signed_take_bit_int_eq_self)

lemma bigint_div_mult: "0 < b \<Longrightarrow> bigint_div (q * b) b = q"
  by (simp add: bigint_div_def abs_mult sgn_mult sgn_mult_abs)

lemma bigint_rem_tsq: "0 < res \<Longrightarrow> bigint_rem (tsq_sql res ts) res = 0"
  by (simp add: bigint_rem_def tsq_sql_def bigint_div_mult)

lemma slice_row_bounds:
  assumes res: "0 < res"
    and d: "d = snd (snd (onBoundsChange ch eng start end res c))"
    and i: "i < length (starts d)"
    and rr: "row_in_range res
               (slice_rows eng (start - maxDurNs (fst (probe_maxDur eng c))) end res ! i)"
  shows "sint (ends d ! i) \<ge> sint (starts d ! i) + res \<and> bigint_rem (sint (starts d ! i)) res = 0"
proof -
  define rs where "rs = slice_rows eng (start - maxDurNs (fst (probe_maxDur eng c))) end res"
  define r where "r = rs ! i"
  define endQ where
    "endQ = BIMath_max (BIMath_quant (row_ts r + row_dur r) res) (row_tsq r + res)"
  from i d have il: "i < length rs"
    by (simp add: onBoundsChange_starts_length rs_def)
  from rr have t: "row_tsq r = tsq_sql res (row_ts r)"
    and f: "fits_int64 (row_tsq r)" and b: "endQ < 2 ^ 63"
    unfolding row_in_range_def endQ_def r_def rs_def by blast+
  have s: "starts d ! i = word_of_int (row_tsq r)"
    using il by (simp add: d onBoundsChange_starts_nth rs_def r_def)
  have e: "ends d ! i = word_of_int endQ"
    using il by (simp add: d onBoundsChange_ends_nth rs_def r_def endQ_def Let_def)
  have ss: "sint (starts d ! i) = row_tsq r"
    using f by (simp only: s sint_store64)
  have lo: "row_tsq r + res \<le> endQ"
    by (simp add: endQ_def BIMath_max_def)
  have "fits_int64 endQ"
    using f b lo res by (simp add: fits_int64_def)
  then have se: "sint (ends d ! i) = endQ"
    by (simp only: e sint_store64)
  have "bigint_rem (row_tsq r) res = 0"
    using res by (simp only: t bigint_rem_tsq)
  with ss se lo show ?thesis by simp
qed

text \<open>
  Claim C1, as the code has it. Let the resolution be above 0, and let \<open>d\<close> be the data
  that the AsyncSlice or the ChromeSlice controller returns. Row \<open>i\<close> of \<open>d\<close> has
  \<open>ends[i] \<ge> starts[i] + resolution\<close> and \<open>starts[i] % resolution = 0\<close> whenever row \<open>i\<close> of
  the main query's result has the query's bucket of \<open>ts\<close> as its \<open>tsq\<close> and a quantized end
  below \<open>2 ^ 63\<close>; nothing is asked of the other rows.
\<close>

theorem onBoundsChange_bucket_width_and_alignment:
  assumes "0 < res"
    and "d = snd (snd (AsyncSliceTrackController_onBoundsChange eng start end res c)) \<or>
         d = snd (snd (ChromeSliceTrackController_onBoundsChange ratio eng start end res c))"
    and "i < length (starts d)"
    and "row_in_range res
           (slice_rows eng (start - maxDurNs (fst (probe_maxDur eng c))) end res ! i)"
  shows "sint (ends d ! i) \<ge> sint (starts d ! i) + res \<and>
         bigint_rem (sint (starts d ! i)) res = 0"
  using assms(2)
proof
  assume "d = snd (snd (AsyncSliceTrackController_onBoundsChange eng start end res c))"
  then have "d = snd (snd (onBoundsChange None eng start end res c))"
    by (simp add: AsyncSliceTrackController_onBoundsChange_def)
  from slice_row_bounds [OF assms(1) this assms(3,4)] show ?thesis .
next
  assume "d = snd (snd (ChromeSliceTrackController_onBoundsChange ratio eng start end res c))"
  then have "d = snd (snd (onBoundsChange (Some ratio) eng start end res c))"
    by (simp add: ChromeSliceTrackController_onBoundsChange_def)
  from slice_row_bounds [OF assms(1) this assms(3,4)] show ?thesis .
qed

text \<open>
  Two rows at resolution 16, the slice \<^verbatim>\<open>{ts: 1000, dur: 20}\<close> and an instant whose end
  leaves the 64-bit range. The first is in range and gives the row \<open>[1008, 1024]\<close>,
  whatever the second does.
\<close>

theorem onBoundsChange_bucket_width_and_alignment_witness:
  "(0::int) < 16 \<and>
   length (starts (snd (snd
     (AsyncSliceTrackController_onBoundsChange engine_two_slices 0 2000 16 new_Controller)))) = 2 \<and>
   row_in_range 16 (slice_rows engine_two_slices (- 20) 2000 16 ! 0) \<and>
   \<not> row_in_range 16 (slice_rows engine_two_slices (- 20) 2000 16 ! 1) \<and>
   sint (starts (snd (snd
     (AsyncSliceTrackController_onBoundsChange engine_two_slices 0 2000 16 new_Controller))) ! 0)
     = 1008 \<and>
   sint (ends (snd (snd
     (AsyncSliceTrackController_onBoundsChange engine_two_slices 0 2000 16 new_Controller))) ! 0)
     \<ge> 1008 + 16 \<and>
   bigint_rem 1008 16 = 0"
proof -
  let ?d = "snd (snd
    (AsyncSliceTrackController_onBoundsChange engine_two_slices 0 2000 16 new_Controller))"
  have h1: "(0::int) < 16" by simp
  have h2: "?d = ?d \<or>
    ?d = snd (snd (ChromeSliceTrackController_onBoundsChange (\<lambda>a b. NaN) engine_two_slices
                     0 2000 16 new_Controller))"
    by simp
  have l: "length (starts ?d) = 2"
    by (simp add: AsyncSliceTrackController_onBoundsChange_def onBoundsChange_starts_length
        engine_two_slices_def)
  then have h3: "0 < length (starts ?d)" by simp
  have m: "maxDurNs (fst (probe_maxDur engine_two_slices new_Controller)) = 20"
    by (simp add: probe_maxDur_def new_Controller_def engine_two_slices_def or_0n_def)
  have r0: "row_in_range 16 (slice_rows engine_two_slices (- 20) 2000 16 ! 0)"
    by (simp add: engine_two_slices_def row_in_range_def tsq_sql_def bigint_div_def
        fits_int64_def BIMath_max_def BIMath_quant_def Let_def)
  have r1: "\<not> row_in_range 16 (slice_rows engine_two_slices (- 20) 2000 16 ! 1)"
    by (simp add: engine_two_slices_def row_in_range_def tsq_sql_def bigint_div_def
        fits_int64_def BIMath_max_def BIMath_quant_def Let_def)
  have h4: "row_in_range 16 (slice_rows engine_two_slices
      (0 - maxDurNs (fst (probe_maxDur engine_two_slices new_Controller))) 2000 16 ! 0)"
    using r0 by (simp add: m)
  have s0: "sint (starts ?d ! 0) = 1008"
    by (simp add: AsyncSliceTrackController_onBoundsChange_def onBoundsChange_starts_nth
        engine_two_slices_def)
  from onBoundsChange_bucket_width_and_alignment [OF h1 h2 h3 h4] h1 l r0 r1 s0
  show ?thesis by simp
qed

text \<open>
  Without the bound on the end the statement fails, where the end leaves the 64-bit
  range of the \<open>ends\<close> column: for the instant at \<open>ts = 2 ^ 63 - 20\<close> and resolution 16 the row starts at
  \<open>2 ^ 63 - 16\<close>, its end \<open>2 ^ 63\<close> is stored as \<open>- 2 ^ 63\<close>.
\<close>

theorem onBoundsChange_end_wraps_at_int64:
  "row_tsq (hd (slice_rows engine_late_slice 0 9223372036854775800 16)) =
     tsq_sql 16 (row_ts (hd (slice_rows engine_late_slice 0 9223372036854775800 16))) \<and>
   sint (starts (snd (snd (AsyncSliceTrackController_onBoundsChange engine_late_slice
       0 9223372036854775800 16 new_Controller))) ! 0) = 9223372036854775792 \<and>
   sint (ends (snd (snd (AsyncSliceTrackController_onBoundsChange engine_late_slice
       0 9223372036854775800 16 new_Controller))) ! 0) = - 9223372036854775808 \<and>
   \<not> (sint (ends (snd (snd (AsyncSliceTrackController_onBoundsChange engine_late_slice
           0 9223372036854775800 16 new_Controller))) ! 0)
        \<ge> sint (starts (snd (snd (AsyncSliceTrackController_onBoundsChange engine_late_slice
           0 9223372036854775800 16 new_Controller))) ! 0) + 16)"
  by (simp add: AsyncSliceTrackController_onBoundsChange_def onBoundsChange_def
      engine_late_slice_def new_Controller_def probe_maxDur_def or_0n_def new_Data_def
      put_row_def internString_def BIMath_max_def BIMath_quant_def bigint_div_def tsq_sql_def
      Let_def)

subsection \<open>The max-duration probe\<close>

lemma onBoundsChange_cached:
  "maxDurNs c \<noteq> 0 \<Longrightarrow>
   fst (onBoundsChange ch eng s e r c) = c \<and>
   fst (snd (onBoundsChange ch eng s e r c)) = [SlicesQuery (s - maxDurNs c) e r]"
  by (simp add: onBoundsChange_def probe_maxDur_def Let_def)

lemma onBoundsChange_probes:
  "maxDurNs c = 0 \<Longrightarrow>
   fst (onBoundsChange ch eng s e r c) = c\<lparr>maxDurNs := or_0n (maxDur_firstRow eng)\<rparr> \<and>
   fst (snd (onBoundsChange ch eng s e r c)) =
     [MaxDurQuery, SlicesQuery (s - or_0n (maxDur_firstRow eng)) e r]"
  by (simp add: onBoundsChange_def probe_maxDur_def Let_def)

lemma bounds_changes_cached:
  "maxDurNs c \<noteq> 0 \<Longrightarrow>
   bounds_changes ch reqs c = map (\<lambda>(eng, s, e, r). [SlicesQuery (s - maxDurNs c) e r]) reqs"
proof (induction reqs)
  case Nil
  then show ?case by simp
next
  case (Cons q reqs)
  obtain eng s e r where q: "q = (eng, s, e, r)" by (cases q) auto
  from Cons show ?case
    using onBoundsChange_cached [of c ch eng s e r]
    by (simp add: q case_prod_beta Let_def)
qed

text \<open>
  Claim C2, as the code has it. The first \<open>onBoundsChange\<close> of a controller sends the
  probe. When the probe's answer \<open>d\<close> is a duration other than 0, it is cached: no later
  call sends the probe, and every later call queries from \<open>start - d\<close>. When the answer
  is \<^verbatim>\<open>NULL\<close> or 0, the controller is as new, and the next call sends the probe again.
\<close>

theorem maxDur_probe_cached_unless_zero:
  "bounds_changes ch ((eng, s, e, r) # reqs) new_Controller =
     (let d = or_0n (maxDur_firstRow eng)
      in if d \<noteq> 0
         then [MaxDurQuery, SlicesQuery (s - d) e r] #
              map (\<lambda>(eng', s', e', r'). [SlicesQuery (s' - d) e' r']) reqs
         else [MaxDurQuery, SlicesQuery s e r] # bounds_changes ch reqs new_Controller)"
proof -
  let ?d = "or_0n (maxDur_firstRow eng)"
  have z: "maxDurNs new_Controller = 0" by (simp add: new_Controller_def)
  note p = onBoundsChange_probes [OF z, of ch eng s e r]
  show ?thesis
  proof (cases "?d = 0")
    case True
    then have "new_Controller\<lparr>maxDurNs := ?d\<rparr> = new_Controller"
      by (simp add: new_Controller_def)
    with p True show ?thesis by (simp add: case_prod_beta Let_def)
  next
    case False
    then have "maxDurNs (new_Controller\<lparr>maxDurNs := ?d\<rparr>) \<noteq> 0" by simp
    from bounds_changes_cached [OF this, of ch reqs] p False show ?thesis
      by (simp add: case_prod_beta Let_def)
  qed
qed

theorem maxDur_probe_cached_unless_zero_witness:
  "bounds_changes None [(engine_one_slice, 0, 1000, 10), (engine_one_slice, 500, 1500, 10)]
     new_Controller =
   [[MaxDurQuery, SlicesQuery (- 20) 1000 10], [SlicesQuery 480 1500 10]]"
  using maxDur_probe_cached_unless_zero
    [of None engine_one_slice 0 1000 10 "[(engine_one_slice, 500, 1500, 10)]"]
  by (simp add: engine_one_slice_def or_0n_def)

text \<open>A probe that is sent once only fails on a track without slices: the second call
  sends the probe again.\<close>

theorem maxDur_probe_sent_again_when_zero:
  "bounds_changes None [(engine_no_slices, 0, 1000, 10), (engine_no_slices, 0, 1000, 10)]
     new_Controller =
   [[MaxDurQuery, SlicesQuery 0 1000 10], [MaxDurQuery, SlicesQuery 0 1000 10]]"
  by (simp add: onBoundsChange_def probe_maxDur_def or_0n_def engine_no_slices_def
      new_Controller_def new_Data_def Let_def)

section \<open>Properties of the track renderer\<close>

text \<open>
  Claim C4. For all timestamps and every depth, the rectangle that \<open>getSliceRect\<close> returns
  is at least 1 pixel wide: its width is \<open>max (right - left) 1\<close>.
\<close>

theorem getSliceRect_width_at_least_1:
  "rect_width (getSliceRect fls scaleFactor tStart tEnd depth) \<ge> 1 \<and>
   rect_width (getSliceRect fls scaleFactor tStart tEnd depth) =
     max (min (tpTimeToPx (visibleTimeScale fls) tEnd) (windowSpan_end fls) -
          max (tpTimeToPx (visibleTimeScale fls) tStart) 0) 1"
  by (simp add: getSliceRect_def Let_def)

text \<open>An instant at time 50: its rectangle would be 0 pixels wide and is 1 pixel wide.\<close>

theorem getSliceRect_width_at_least_1_witness:
  "(50::int) \<le> 50 \<and> rect_width (getSliceRect window_1004 1 50 50 0) = 1"
  using getSliceRect_width_at_least_1 [of window_1004 1 50 50 0]
  by (simp add: window_1004_def unit_scale_def)

subsection \<open>The scan finds the first hit\<close>

















section \<open>Properties of the action handlers\<close>

lemma length_update_new: "k \<notin> fst ` set al \<Longrightarrow> length (AList.update k v al) = Suc (length al)"
  by (induction al) auto

lemma length_update_old: "k \<in> fst ` set al \<Longrightarrow> length (AList.update k v al) = length al"
  by (induction al) auto

text \<open>
  Claim C5. With \<open>area.start > area.end\<close>, each of \<open>markArea\<close>, \<open>selectArea\<close> and
  \<open>editArea\<close> throws the assertion error while the draft is still the state it was
  given, and the Store keeps that state; with \<open>area.start \<le> area.end\<close> each of them
  returns.
\<close>

theorem area_actions_assert_start_le_end:
  "(area_end area < area_start area \<longrightarrow>
      StateActions_markArea rt state area persistent rc = Inl (AssertionFailed, state) \<and>
      StateActions_selectArea rt state area = Inl (AssertionFailed, state) \<and>
      StateActions_editArea state area areaId = Inl (AssertionFailed, state) \<and>
      Store_apply (\<lambda>s. StateActions_markArea rt s area persistent rc) state = state \<and>
      Store_apply (\<lambda>s. StateActions_selectArea rt s area) state = state \<and>
      Store_apply (\<lambda>s. StateActions_editArea s area areaId) state = state) \<and>
   (area_start area \<le> area_end area \<longrightarrow>
      (\<exists>draft. StateActions_markArea rt state area persistent rc = Inr draft) \<and>
      (\<exists>draft. StateActions_selectArea rt state area = Inr draft) \<and>
      (\<exists>draft. StateActions_editArea state area areaId = Inr draft))"
  by (simp add: StateActions_markArea_def StateActions_selectArea_def StateActions_editArea_def
      assertTrue_def Store_apply_def Let_def case_prod_beta)

theorem area_actions_assert_start_le_end_witness:
  "area_end area_200_100 < area_start area_200_100 \<and>
   area_start area_100_200 \<le> area_end area_100_200 \<and>
   StateActions_markArea exact_runtime state_empty area_200_100 True ''#ff0000'' =
     Inl (AssertionFailed, state_empty) \<and>
   StateActions_selectArea exact_runtime state_empty area_200_100 =
     Inl (AssertionFailed, state_empty) \<and>
   StateActions_editArea state_empty area_200_100 ''1'' = Inl (AssertionFailed, state_empty) \<and>
   (\<exists>draft. StateActions_markArea exact_runtime state_empty area_100_200 True ''#ff0000'' =
      Inr draft) \<and>
   (\<exists>draft. StateActions_selectArea exact_runtime state_empty area_100_200 = Inr draft) \<and>
   (\<exists>draft. StateActions_editArea state_empty area_100_200 ''1'' = Inr draft)"
proof -
  have bad: "area_end area_200_100 < area_start area_200_100"
    by (simp add: area_200_100_def)
  have good: "area_start area_100_200 \<le> area_end area_100_200"
    by (simp add: area_100_200_def)
  from area_actions_assert_start_le_end
      [of area_200_100 exact_runtime state_empty True "''#ff0000''" "''1''"]
    area_actions_assert_start_le_end
      [of area_100_200 exact_runtime state_empty True "''#ff0000''" "''1''"]
    bad good
  show ?thesis by blast
qed

text \<open>
  Claim C9. For every state whose \<open>tracks\<close> lacks the id, \<open>toggleTrackPinned\<close> throws the
  assertion error of \<open>assertExists\<close>; the draft is untouched when it does.
\<close>

theorem toggleTrackPinned_absent_track_throws:
  "map_of (tracks state) trackId = None \<Longrightarrow>
   StateActions_toggleTrackPinned state trackId = Inl (AssertionFailed, state)"
  by (simp add: StateActions_toggleTrackPinned_def assertExists_def)

theorem toggleTrackPinned_absent_track_throws_witness:
  "map_of (tracks state_one_track) ''t2'' = None \<and>
   StateActions_toggleTrackPinned state_one_track ''t2'' = Inl (AssertionFailed, state_one_track)"
proof -
  have h: "map_of (tracks state_one_track) ''t2'' = None"
    by (simp add: state_one_track_def)
  from toggleTrackPinned_absent_track_throws [OF h] h show ?thesis by simp
qed

lemma generateNextId_snd:
  "snd (generateNextId rt state) = state\<lparr>nextId := fst (generateNextId rt state)\<rparr>"
  by (simp add: generateNextId_def Let_def)

lemma persistent_markArea_result:
  assumes "area_start area \<le> area_end area"
    and "areaId = fst (generateNextId rt state)"
    and "noteId = fst (generateNextId rt (state\<lparr>nextId := areaId\<rparr>))"
  shows "StateActions_markArea rt state area True rc =
     Inr (state\<lparr>nextId := noteId,
            areas := AList.update areaId
              \<lparr>area_start = area_start area, area_end = area_end area,
               area_tracks = area_tracks area, area_id = areaId\<rparr> (areas state),
            notes := AList.update noteId (AreaNote noteId areaId rc []) (notes state)\<rparr>)"
  using assms
  by (simp add: StateActions_markArea_def assertTrue_def generateNextId_def Let_def)

text \<open>
  Claim C10. With \<open>persistent: false\<close>, \<open>markArea\<close> (on \<open>start \<le> end\<close>) and
  \<open>markCurrentArea\<close> (on an area selection) store the area note under the id \<open>'0'\<close> with
  the colour \<open>'#344596'\<close>. \<open>markArea\<close> generates one id, the area's, and leaves it in
  \<open>nextId\<close>: none is generated for the note. \<open>markCurrentArea\<close> leaves \<open>nextId\<close> as it is,
  and returns the state as it is when the selection is not an area. Where a note \<open>'0'\<close>
  exists, the new one takes its place and the number of notes stays; ids that were
  distinct stay distinct, so there is one note \<open>'0'\<close> at most.
\<close>

theorem nonpersistent_area_note_is_note_0:
  "(area_start area \<le> area_end area \<longrightarrow>
      (let areaId = fst (generateNextId rt state)
       in StateActions_markArea rt state area False rc =
            Inr (state\<lparr>nextId := areaId,
                   areas := AList.update areaId
                     \<lparr>area_start = area_start area, area_end = area_end area,
                      area_tracks = area_tracks area, area_id = areaId\<rparr> (areas state),
                   notes := AList.update ''0''
                     (AreaNote ''0'' areaId ''#344596'' []) (notes state)\<rparr>))) \<and>
   (currentSelection state = Some (AREA areaId noteId) \<longrightarrow>
      StateActions_markCurrentArea rt state color False =
        Inr (state\<lparr>notes := AList.update ''0'' (AreaNote ''0'' areaId ''#344596'' []) (notes state),
               currentSelection := Some (AREA areaId (Some ''0''))\<rparr>)) \<and>
   ((\<forall>a n. currentSelection state \<noteq> Some (AREA a n)) \<longrightarrow>
      StateActions_markCurrentArea rt state color False = Inr state) \<and>
   (''0'' \<in> fst ` set (notes state) \<longrightarrow>
      length (AList.update ''0'' note (notes state)) = length (notes state)) \<and>
   (distinct (map fst (notes state)) \<longrightarrow>
      distinct (map fst (AList.update ''0'' note (notes state)))) \<and>
   map_of (AList.update ''0'' note (notes state)) ''0'' = Some note"
  apply (intro conjI impI)
       apply (simp add: StateActions_markArea_def assertTrue_def generateNextId_def Let_def)
      apply (simp add: StateActions_markCurrentArea_def)
     apply (simp add: StateActions_markCurrentArea_def split: option.splits Selection.splits)
    apply (simp add: length_update_old)
   apply (simp add: distinct_update)
  apply (simp add: update_conv')
  done

lemma String_int_1: "String_int 1 = ''1''"
  by (simp add: String_int_def String_nat.simps)

lemma String_int_2: "String_int 2 = ''2''"
  by (simp add: String_int_def String_nat.simps)

lemma generateNextId_0: "fst (generateNextId exact_runtime (s\<lparr>nextId := ''0''\<rparr>)) = ''1''"
  by (simp add: generateNextId_def exact_runtime_def exact_op_def digit_of_def String_int_1 Let_def)

lemma generateNextId_1: "fst (generateNextId exact_runtime (s\<lparr>nextId := ''1''\<rparr>)) = ''2''"
  by (simp add: generateNextId_def exact_runtime_def exact_op_def digit_of_def String_int_2 Let_def)

lemma state_empty_nextId: "state_empty\<lparr>nextId := ''0''\<rparr> = state_empty"
  by (simp add: state_empty_def)

text \<open>A first non-persistent mark in the empty state stores area \<open>'1'\<close> and note \<open>'0'\<close>,
  and \<open>nextId\<close> is \<open>'1'\<close>; a second one, of the selected area, takes the place of note
  \<open>'0'\<close>.\<close>

theorem nonpersistent_area_note_is_note_0_witness:
  "area_start area_100_200 \<le> area_end area_100_200 \<and>
   (\<forall>a n. currentSelection state_empty \<noteq> Some (AREA a n)) \<and>
   currentSelection state_marked = Some (AREA ''1'' (Some ''2'')) \<and>
   ''0'' \<in> fst ` set (notes state_note_0) \<and>
   distinct (map fst (notes state_note_0)) \<and>
   StateActions_markArea exact_runtime state_empty area_100_200 False ''#ff0000'' =
     Inr state_note_0 \<and>
   nextId state_note_0 = ''1'' \<and>
   StateActions_markCurrentArea exact_runtime state_empty ''#ff0000'' False = Inr state_empty \<and>
   StateActions_markCurrentArea exact_runtime state_marked ''#ff0000'' False =
     Inr (state_marked\<lparr>notes := [(''2'', AreaNote ''2'' ''1'' ''#ff0000'' []),
                                  (''0'', AreaNote ''0'' ''1'' ''#344596'' [])],
            currentSelection := Some (AREA ''1'' (Some ''0''))\<rparr>) \<and>
   length (AList.update ''0'' (AreaNote ''0'' ''5'' ''#344596'' []) (notes state_note_0)) =
     length (notes state_note_0) \<and>
   distinct (map fst (AList.update ''0'' (AreaNote ''0'' ''5'' ''#344596'' []) (notes state_note_0)))"
proof -
  have h1: "area_start area_100_200 \<le> area_end area_100_200"
    by (simp add: area_100_200_def)
  have h2: "\<forall>a n. currentSelection state_empty \<noteq> Some (AREA a n)"
    by (simp add: state_empty_def)
  have h3: "currentSelection state_marked = Some (AREA ''1'' (Some ''2''))"
    by (simp add: state_marked_def state_empty_def)
  have h4: "''0'' \<in> fst ` set (notes state_note_0)"
    by (simp add: state_note_0_def state_empty_def)
  have h5: "distinct (map fst (notes state_note_0))"
    by (simp add: state_note_0_def state_empty_def)
  have g: "fst (generateNextId exact_runtime state_empty) = ''1''"
    using generateNextId_0 [of state_empty] by (simp only: state_empty_nextId)
  have n: "nextId state_note_0 = ''1''"
    by (simp add: state_note_0_def)
  note T = nonpersistent_area_note_is_note_0
    [of area_100_200 exact_runtime state_empty "''#ff0000''" "''1''" "Some ''2''" "''#ff0000''"
        "AreaNote ''0'' ''5'' ''#344596'' []"]
  from T h1
  have "StateActions_markArea exact_runtime state_empty area_100_200 False ''#ff0000'' =
      Inr (state_empty\<lparr>nextId := ''1'',
             areas := AList.update ''1''
               \<lparr>area_start = area_start area_100_200, area_end = area_end area_100_200,
                area_tracks = area_tracks area_100_200, area_id = ''1''\<rparr> (areas state_empty),
             notes := AList.update ''0''
               (AreaNote ''0'' ''1'' ''#344596'' []) (notes state_empty)\<rparr>)"
    by (simp add: g Let_def)
  then have a: "StateActions_markArea exact_runtime state_empty area_100_200 False ''#ff0000'' =
      Inr state_note_0"
    by (simp add: state_note_0_def state_empty_def area_100_200_def)
  from T h2
  have b: "StateActions_markCurrentArea exact_runtime state_empty ''#ff0000'' False =
      Inr state_empty"
    by blast
  from nonpersistent_area_note_is_note_0
    [of area_100_200 exact_runtime state_marked "''#ff0000''" "''1''" "Some ''2''" "''#ff0000''"
        "AreaNote ''0'' ''5'' ''#344596'' []"] h3
  have c: "StateActions_markCurrentArea exact_runtime state_marked ''#ff0000'' False =
     Inr (state_marked\<lparr>notes := [(''2'', AreaNote ''2'' ''1'' ''#ff0000'' []),
                                  (''0'', AreaNote ''0'' ''1'' ''#344596'' [])],
            currentSelection := Some (AREA ''1'' (Some ''0''))\<rparr>)"
    by (simp add: state_marked_def state_empty_def)
  from nonpersistent_area_note_is_note_0
    [of area_100_200 exact_runtime state_note_0 "''#ff0000''" "''1''" "Some ''2''" "''#ff0000''"
        "AreaNote ''0'' ''5'' ''#344596'' []"] h4 h5
  have d: "length (AList.update ''0'' (AreaNote ''0'' ''5'' ''#344596'' []) (notes state_note_0)) =
     length (notes state_note_0)"
    and e: "distinct (map fst (AList.update ''0'' (AreaNote ''0'' ''5'' ''#344596'' [])
              (notes state_note_0)))"
    by blast+
  from h1 h2 h3 h4 h5 a n b c d e show ?thesis by blast
qed

text \<open>
  Claim C7, as the code has it. \<open>markArea\<close> with \<open>persistent: true\<close> (on \<open>start \<le> end\<close>)
  generates two ids, one after the other. It writes one area, with the given start, end
  and tracks, under the first, and one note of type AREA that refers to the first, under
  the second, which it leaves in \<open>nextId\<close>. Under an id that is new the state has one
  entry more; under an id that is in use the entry takes the place of the one that was
  there and the number of entries stays. \<open>toggleMarkCurrentArea\<close>, when the selection is
  an area selection with a \<open>noteId\<close>: if that is the id of a note, the note is removed and
  the selection's \<open>noteId\<close> is cleared, the selection staying an area selection of the same
  area; if no note has that id, the state is left as it is, \<open>noteId\<close> included.
\<close>

theorem markArea_persistent_and_toggleMarkCurrentArea:
  "(area_start area \<le> area_end area \<longrightarrow>
      (let areaId = fst (generateNextId rt state);
           noteId = fst (generateNextId rt (state\<lparr>nextId := areaId\<rparr>));
           newArea = \<lparr>area_start = area_start area, area_end = area_end area,
                      area_tracks = area_tracks area, area_id = areaId\<rparr>;
           newNote = AreaNote noteId areaId rc []
       in StateActions_markArea rt state area True rc =
            Inr (state\<lparr>nextId := noteId,
                   areas := AList.update areaId newArea (areas state),
                   notes := AList.update noteId newNote (notes state)\<rparr>) \<and>
          length (AList.update areaId newArea (areas state)) =
            (if areaId \<in> fst ` set (areas state) then length (areas state)
             else Suc (length (areas state))) \<and>
          length (AList.update noteId newNote (notes state)) =
            (if noteId \<in> fst ` set (notes state) then length (notes state)
             else Suc (length (notes state))) \<and>
          map_of (AList.update areaId newArea (areas state)) areaId = Some newArea \<and>
          map_of (AList.update noteId newNote (notes state)) noteId = Some newNote)) \<and>
   (currentSelection state = Some (AREA selArea (Some selNote)) \<longrightarrow>
      StateActions_toggleMarkCurrentArea rt state persistent rc' =
        (if map_of (notes state) selNote = None then Inr state
         else Inr (state\<lparr>notes := AList.delete selNote (notes state),
                     currentSelection := Some (AREA selArea None)\<rparr>)))"
  apply (intro conjI impI)
   apply (simp add: StateActions_markArea_def assertTrue_def generateNextId_def Let_def
      length_update_new length_update_old update_conv')
  apply (simp add: StateActions_toggleMarkCurrentArea_def StateActions_removeNote_def Let_def)
  done

text \<open>Marking \<open>[100, 200]\<close> on \<open>t1\<close> in the empty state gives area \<open>'1'\<close> and note \<open>'2'\<close>,
  both new; toggling while that note marks the selected area removes the note and keeps
  the selection of area \<open>'1'\<close>.\<close>

theorem markArea_persistent_and_toggleMarkCurrentArea_witness:
  "area_start area_100_200 \<le> area_end area_100_200 \<and>
   fst (generateNextId exact_runtime state_empty) = ''1'' \<and>
   fst (generateNextId exact_runtime (state_empty\<lparr>nextId := ''1''\<rparr>)) = ''2'' \<and>
   ''1'' \<notin> fst ` set (areas state_empty) \<and> ''2'' \<notin> fst ` set (notes state_empty) \<and>
   currentSelection state_marked = Some (AREA ''1'' (Some ''2'')) \<and>
   map_of (notes state_marked) ''2'' = Some (AreaNote ''2'' ''1'' ''#ff0000'' []) \<and>
   StateActions_markArea exact_runtime state_empty area_100_200 True ''#ff0000'' =
     Inr (state_marked\<lparr>currentSelection := None\<rparr>) \<and>
   length (areas (state_marked\<lparr>currentSelection := None\<rparr>)) = Suc (length (areas state_empty)) \<and>
   length (notes (state_marked\<lparr>currentSelection := None\<rparr>)) = Suc (length (notes state_empty)) \<and>
   StateActions_toggleMarkCurrentArea exact_runtime state_marked True ''#00ff00'' =
     Inr (state_marked\<lparr>notes := [], currentSelection := Some (AREA ''1'' None)\<rparr>)"
proof -
  have h1: "area_start area_100_200 \<le> area_end area_100_200"
    by (simp add: area_100_200_def)
  have g1: "fst (generateNextId exact_runtime state_empty) = ''1''"
    using generateNextId_0 [of state_empty] by (simp only: state_empty_nextId)
  have g2: "fst (generateNextId exact_runtime (state_empty\<lparr>nextId := ''1''\<rparr>)) = ''2''"
    by (rule generateNextId_1)
  have h2: "''1'' \<notin> fst ` set (areas state_empty)" "''2'' \<notin> fst ` set (notes state_empty)"
    by (simp_all add: state_empty_def)
  have h3: "currentSelection state_marked = Some (AREA ''1'' (Some ''2''))"
    by (simp add: state_marked_def state_empty_def)
  have h4: "map_of (notes state_marked) ''2'' = Some (AreaNote ''2'' ''1'' ''#ff0000'' [])"
    by (simp add: state_marked_def state_empty_def)
  from markArea_persistent_and_toggleMarkCurrentArea
    [of area_100_200 exact_runtime state_empty "''#ff0000''" "''1''" "''2''" True "''#00ff00''"]
    h1
  have "StateActions_markArea exact_runtime state_empty area_100_200 True ''#ff0000'' =
     Inr (state_empty\<lparr>nextId := ''2'',
            areas := AList.update ''1''
              \<lparr>area_start = area_start area_100_200, area_end = area_end area_100_200,
               area_tracks = area_tracks area_100_200, area_id = ''1''\<rparr> (areas state_empty),
            notes := AList.update ''2''
              (AreaNote ''2'' ''1'' ''#ff0000'' []) (notes state_empty)\<rparr>)"
    by (simp add: g1 g2 Let_def)
  then have a: "StateActions_markArea exact_runtime state_empty area_100_200 True ''#ff0000'' =
     Inr (state_marked\<lparr>currentSelection := None\<rparr>)"
    by (simp add: state_marked_def state_empty_def area_100_200_def)
  have b: "length (areas (state_marked\<lparr>currentSelection := None\<rparr>)) = Suc (length (areas state_empty))"
    "length (notes (state_marked\<lparr>currentSelection := None\<rparr>)) = Suc (length (notes state_empty))"
    by (simp_all add: state_marked_def state_empty_def)
  from markArea_persistent_and_toggleMarkCurrentArea
    [of area_100_200 exact_runtime state_marked "''#ff0000''" "''1''" "''2''" True "''#00ff00''"]
    h3 h4
  have c: "StateActions_toggleMarkCurrentArea exact_runtime state_marked True ''#00ff00'' =
     Inr (state_marked\<lparr>notes := [], currentSelection := Some (AREA ''1'' None)\<rparr>)"
    by (simp add: state_marked_def state_empty_def)
  from h1 g1 g2 h2 h3 h4 a b c show ?thesis by blast
qed

text \<open>
  That a persistent \<open>markArea\<close> adds an area, and that \<open>toggleMarkCurrentArea\<close> on an area
  selection with a \<open>noteId\<close> removes a note and clears the \<open>noteId\<close>, fails in both parts.
  After \<^verbatim>\<open>editArea\<close> has written an area under the id \<open>'1'\<close> in the empty state, whose
  \<open>nextId\<close> is \<open>'0'\<close>, a persistent \<open>markArea\<close> generates the id \<open>'1'\<close> and writes its area
  over that one: there is one area before and one after. After \<^verbatim>\<open>reSelectArea\<close> has
  selected area \<open>'1'\<close> with the note id \<open>'9'\<close>, which no note has, \<open>toggleMarkCurrentArea\<close>
  returns the state it was given: no note is removed and \<open>noteId\<close> is still \<open>'9'\<close>.
\<close>

theorem markArea_replaces_area_and_toggle_keeps_stale_noteId:
  "StateActions_editArea state_empty area_100_200 ''1'' = Inr state_edited \<and>
   length (areas state_edited) = 1 \<and>
   area_start area_300_400 \<le> area_end area_300_400 \<and>
   StateActions_markArea exact_runtime state_edited area_300_400 True ''#ff0000'' =
     Inr (state_edited\<lparr>nextId := ''2'',
            areas := [(''1'', \<lparr>area_start = 300, area_end = 400, area_tracks = [''t1''],
                                area_id = ''1''\<rparr>)],
            notes := [(''2'', AreaNote ''2'' ''1'' ''#ff0000'' [])]\<rparr>) \<and>
   StateActions_reSelectArea state_empty ''1'' ''9'' = Inr state_reselected \<and>
   currentSelection state_reselected = Some (AREA ''1'' (Some ''9'')) \<and>
   map_of (notes state_reselected) ''9'' = None \<and>
   (\<forall>rt. StateActions_toggleMarkCurrentArea rt state_reselected True ''#00ff00'' =
      Inr state_reselected)"
proof -
  have g1: "fst (generateNextId exact_runtime state_edited) = ''1''"
    using generateNextId_0 [of state_edited] by (simp add: state_edited_def state_empty_def)
  have g2: "fst (generateNextId exact_runtime (state_edited\<lparr>nextId := ''1''\<rparr>)) = ''2''"
    by (rule generateNextId_1)
  have a: "StateActions_editArea state_empty area_100_200 ''1'' = Inr state_edited"
    by (simp add: StateActions_editArea_def assertTrue_def state_edited_def state_empty_def
        area_100_200_def)
  have b: "length (areas state_edited) = 1"
    by (simp add: state_edited_def)
  have c: "area_start area_300_400 \<le> area_end area_300_400"
    by (simp add: area_300_400_def)
  have d: "StateActions_markArea exact_runtime state_edited area_300_400 True ''#ff0000'' =
     Inr (state_edited\<lparr>nextId := ''2'',
            areas := [(''1'', \<lparr>area_start = 300, area_end = 400, area_tracks = [''t1''],
                                area_id = ''1''\<rparr>)],
            notes := [(''2'', AreaNote ''2'' ''1'' ''#ff0000'' [])]\<rparr>)"
    by (simp add: persistent_markArea_result [OF c g1 [symmetric] g2 [symmetric]])
       (simp add: state_edited_def state_empty_def area_300_400_def)
  have e: "StateActions_reSelectArea state_empty ''1'' ''9'' = Inr state_reselected"
    by (simp add: StateActions_reSelectArea_def state_reselected_def)
  have f: "currentSelection state_reselected = Some (AREA ''1'' (Some ''9''))"
    by (simp add: state_reselected_def)
  have n: "map_of (notes state_reselected) ''9'' = None"
    by (simp add: state_reselected_def state_empty_def)
  have h: "\<forall>rt. StateActions_toggleMarkCurrentArea rt state_reselected True ''#00ff00'' =
     Inr state_reselected"
    by (simp add: StateActions_toggleMarkCurrentArea_def StateActions_removeNote_def
        state_reselected_def state_empty_def)
  from a b c d e f n h show ?thesis by blast
qed

subsection \<open>Removal\<close>

lemma tracks_cleanUiTrackId: "tracks (cleanUiTrackId u t s) = tracks s"
  by (simp add: cleanUiTrackId_def)

lemma tracks_fold_cleanUiTrackId: "tracks (fold (cleanUiTrackId u) ts s) = tracks s"
  by (induction ts arbitrary: s) (simp_all add: tracks_cleanUiTrackId)

lemma tracks_cleanUiTrackIdByTraceTrackId:
  "tracks (cleanUiTrackIdByTraceTrackId s t u) = tracks s"
  by (simp add: cleanUiTrackIdByTraceTrackId_def updateUiTrackIdByTraceTrackId_def
      tracks_cleanUiTrackId tracks_fold_cleanUiTrackId split: option.splits)

lemma removeTrack_tracks:
  "removeTrack s tid = Inr s1 \<Longrightarrow> tracks s1 = AList.delete tid (tracks s)"
  by (auto simp: removeTrack_def Let_def split: option.splits if_splits)

lemma StateActions_removeTrack_gone:
  assumes "StateActions_removeTrack s tid = Inr s1"
  shows "map_of (tracks s1) tid = None"
proof (cases "map_of (tracks s) tid")
  case None
  with assms show ?thesis by (simp add: StateActions_removeTrack_def)
next
  case (Some track)
  with assms obtain s' where r: "removeTrack s tid = Inr s'"
    and t: "tracks s1 = tracks (cleanUiTrackIdByTraceTrackId s' track tid)"
    by (auto simp: StateActions_removeTrack_def Let_def split: sum.splits)
  from removeTrack_tracks [OF r] t show ?thesis
    by (simp add: tracks_cleanUiTrackIdByTraceTrackId delete_conv')
qed

lemma StateActions_removeTrack_absent:
  "map_of (tracks s) tid = None \<Longrightarrow> StateActions_removeTrack s tid = Inr s"
  by (simp add: StateActions_removeTrack_def)

text \<open>
  Claim C6. \<open>removeTrack\<close> on a track id that the state lacks, and \<open>removeTrackGroup\<close> on
  a group id that the state lacks, return without an error and leave the state as it
  is. A \<open>removeTrack\<close> that has returned is followed by a \<open>removeTrack\<close> of the same id
  that changes nothing; applied through the Store, twice is the same as once.
\<close>

theorem removal_of_absent_id_is_noop:
  "(map_of (tracks state) trackId = None \<longrightarrow>
      StateActions_removeTrack state trackId = Inr state) \<and>
   (map_of (trackGroups state) groupId = None \<longrightarrow>
      StateActions_removeTrackGroup state groupId summaryTrackId = Inr state) \<and>
   (\<forall>once. StateActions_removeTrack state trackId = Inr once \<longrightarrow>
      StateActions_removeTrack once trackId = Inr once) \<and>
   Store_apply (\<lambda>s. StateActions_removeTrack s trackId)
      (Store_apply (\<lambda>s. StateActions_removeTrack s trackId) state) =
     Store_apply (\<lambda>s. StateActions_removeTrack s trackId) state"
proof (intro conjI impI allI)
  assume "map_of (tracks state) trackId = None"
  then show "StateActions_removeTrack state trackId = Inr state"
    by (rule StateActions_removeTrack_absent)
next
  assume "map_of (trackGroups state) groupId = None"
  then show "StateActions_removeTrackGroup state groupId summaryTrackId = Inr state"
    by (simp add: StateActions_removeTrackGroup_def)
next
  fix once
  assume "StateActions_removeTrack state trackId = Inr once"
  then show "StateActions_removeTrack once trackId = Inr once"
    by (intro StateActions_removeTrack_absent StateActions_removeTrack_gone)
next
  show "Store_apply (\<lambda>s. StateActions_removeTrack s trackId)
      (Store_apply (\<lambda>s. StateActions_removeTrack s trackId) state) =
     Store_apply (\<lambda>s. StateActions_removeTrack s trackId) state"
  proof (cases "StateActions_removeTrack state trackId")
    case (Inl e)
    then show ?thesis by (simp add: Store_apply_def)
  next
    case (Inr once)
    then have "StateActions_removeTrack once trackId = Inr once"
      by (intro StateActions_removeTrack_absent StateActions_removeTrack_gone)
    with Inr show ?thesis by (simp add: Store_apply_def)
  qed
qed

lemma removeTrack_t1:
  "StateActions_removeTrack state_one_track ''t1'' =
     Inr (state_empty\<lparr>filteredTracks :=
       [TrackArgs \<lparr>args_id = None, args_engineId = ''0'', args_kind = ''ChromeSliceTrack'',
          args_name = ''main'', args_title = None,
          args_trackSortKey = PrimaryTrackSortKey 0,
          args_trackGroup = Some SCROLLING_TRACK_GROUP, args_labels = None,
          args_config = \<lparr>config_namespace = None, config_trackId = Some 5,
                          config_trackIds = None\<rparr>\<rparr>]\<rparr>)"
  by (simp add: StateActions_removeTrack_def removeTrack_def state_one_track_def state_empty_def
      track_t1_def cleanUiTrackIdByTraceTrackId_def updateUiTrackIdByTraceTrackId_def
      cleanUiTrackId_def Let_def)

text \<open>The state with the one track \<open>t1\<close>: removing \<open>t2\<close> or the group \<open>g1\<close> changes nothing;
  removing \<open>t1\<close> empties \<open>tracks\<close>, and removing it again changes nothing.\<close>

theorem removal_of_absent_id_is_noop_witness:
  "map_of (tracks state_one_track) ''t2'' = None \<and>
   map_of (trackGroups state_one_track) ''g1'' = None \<and>
   StateActions_removeTrack state_one_track ''t2'' = Inr state_one_track \<and>
   StateActions_removeTrackGroup state_one_track ''g1'' ''t1'' = Inr state_one_track \<and>
   (\<exists>once. StateActions_removeTrack state_one_track ''t1'' = Inr once \<and>
            tracks once = [] \<and> once \<noteq> state_one_track \<and>
            StateActions_removeTrack once ''t1'' = Inr once)"
proof -
  have h1: "map_of (tracks state_one_track) ''t2'' = None"
    and h2: "map_of (trackGroups state_one_track) ''g1'' = None"
    by (simp_all add: state_one_track_def state_empty_def)
  from removal_of_absent_id_is_noop [of state_one_track "''t2''" "''g1''" "''t1''"] h1 h2
  have a: "StateActions_removeTrack state_one_track ''t2'' = Inr state_one_track"
    and b: "StateActions_removeTrackGroup state_one_track ''g1'' ''t1'' = Inr state_one_track"
    by blast+
  obtain once where o: "StateActions_removeTrack state_one_track ''t1'' = Inr once"
    and t: "tracks once = []" and n: "once \<noteq> state_one_track"
    using removeTrack_t1 by (auto simp: state_empty_def state_one_track_def)
  from removal_of_absent_id_is_noop [of state_one_track "''t1''" "''g1''" "''t1''"] o
  have "StateActions_removeTrack once ''t1'' = Inr once" by blast
  with h1 h2 a b o t n show ?thesis by blast
qed

section \<open>Properties of the controller loop\<close>

lemma runControllers_loop_over:
  "100 < iter \<Longrightarrow>
   runControllers_loop invoke ctx iter g =
     (Some (Error ''Controllers are stuck in a livelock''), g)"
  by (subst runControllers_loop.simps) simp

lemma runControllers_loop_body:
  "iter \<le> 100 \<Longrightarrow>
   runControllers_loop invoke ctx iter g =
     (case runControllers_body invoke ctx g of
        (Inl err, g2) \<Rightarrow> (Some err, g2)
      | (Inr runAgain, g2) \<Rightarrow>
          if runAgain then runControllers_loop invoke ctx (Suc iter) g2 else (None, g2))"
  by (subst runControllers_loop.simps) simp

lemma runControllers_loop_stops:
  assumes "iter + n \<le> 100"
    and "invoke_result invoke ctx n g = r"
    and "r \<noteq> Inr True"
    and "\<forall>m<n. invoke_result invoke ctx m g = Inr True"
  shows "runControllers_loop invoke ctx iter g =
           ((case r of Inl err \<Rightarrow> Some err | Inr runAgain \<Rightarrow> None),
            invoked invoke ctx (Suc n) g)"
  using assms
proof (induction n arbitrary: iter g)
  case 0
  obtain r' g2 where b: "runControllers_body invoke ctx g = (r', g2)"
    by (cases "runControllers_body invoke ctx g") auto
  with 0 have r: "r' = r" by (simp add: invoke_result_def)
  from 0 have le: "iter \<le> 100" by simp
  from 0 r show ?case
    by (cases r) (simp_all add: runControllers_loop_body [OF le] b)
next
  case (Suc n)
  from Suc.prems(4) have "invoke_result invoke ctx 0 g = Inr True" by blast
  then obtain g2 where b: "runControllers_body invoke ctx g = (Inr True, g2)"
    by (cases "runControllers_body invoke ctx g") (simp add: invoke_result_def)
  from Suc.prems(1) have le: "iter \<le> 100" by simp
  have step: "runControllers_loop invoke ctx iter g = runControllers_loop invoke ctx (Suc iter) g2"
    by (simp add: runControllers_loop_body [OF le] b)
  have a: "Suc iter + n \<le> 100" using Suc.prems(1) by simp
  have q: "invoke_result invoke ctx n g2 = r"
    using Suc.prems(2) b by (simp add: invoke_result_def)
  have c: "\<forall>m<n. invoke_result invoke ctx m g2 = Inr True"
  proof (intro allI impI)
    fix m assume "m < n"
    then have "invoke_result invoke ctx (Suc m) g = Inr True" using Suc.prems(4) by simp
    then show "invoke_result invoke ctx m g2 = Inr True" using b by (simp add: invoke_result_def)
  qed
  from Suc.IH [OF a q Suc.prems(3) c] show ?case
    by (simp add: step b)
qed

lemma runControllers_loop_livelock:
  assumes "iter \<le> 101"
    and "\<forall>m. iter + m \<le> 100 \<longrightarrow> invoke_result invoke ctx m g = Inr True"
  shows "runControllers_loop invoke ctx iter g =
           (Some (Error ''Controllers are stuck in a livelock''),
            invoked invoke ctx (101 - iter) g)"
  using assms
proof (induction "101 - iter" arbitrary: iter g)
  case 0
  then have "100 < iter" "101 - iter = 0" by simp_all
  then show ?case by (simp add: runControllers_loop_over)
next
  case (Suc k)
  then have le: "iter \<le> 100" by simp
  from Suc.prems(2) le have "invoke_result invoke ctx 0 g = Inr True" by simp
  then obtain g2 where b: "runControllers_body invoke ctx g = (Inr True, g2)"
    by (cases "runControllers_body invoke ctx g") (simp add: invoke_result_def)
  have step: "runControllers_loop invoke ctx iter g = runControllers_loop invoke ctx (Suc iter) g2"
    by (simp add: runControllers_loop_body [OF le] b)
  have k: "k = 101 - Suc iter" using Suc.hyps(2) by simp
  have a: "Suc iter \<le> 101" using le by simp
  have c: "\<forall>m. Suc iter + m \<le> 100 \<longrightarrow> invoke_result invoke ctx m g2 = Inr True"
  proof (intro allI impI)
    fix m assume "Suc iter + m \<le> 100"
    then have "invoke_result invoke ctx (Suc m) g = Inr True" using Suc.prems(2) by simp
    then show "invoke_result invoke ctx m g2 = Inr True" using b by (simp add: invoke_result_def)
  qed
  have "101 - iter = Suc (101 - Suc iter)" using le by simp
  with Suc.hyps(1) [OF k a c] show ?case
    by (simp add: step b)
qed

subsection \<open>The running flag\<close>

lemma runControllers_body_resets:
  "map_of (runningControllersMap (snd (runControllers_body invoke ctx g))) ctx = Some False"
  by (simp add: runControllers_body_def Let_def update_conv' split: sum.splits prod.splits)

lemma invoked_resets:
  "map_of (runningControllersMap (invoked invoke ctx (Suc n) g)) ctx = Some False"
  by (induction n arbitrary: g) (simp_all add: runControllers_body_resets)

lemma runControllers_body_cong:
  assumes "\<And>c h. map_of (runningControllersMap h) ctx = Some True \<Longrightarrow> invoke c h = invoke' c h"
  shows "runControllers_body invoke ctx g = runControllers_body invoke' ctx g"
proof -
  let ?g1 = "g\<lparr>runningControllersMap := AList.update ctx True (runningControllersMap g)\<rparr>"
  have "map_of (runningControllersMap ?g1) ctx = Some True"
    by (simp add: update_conv')
  from assms [OF this] have "\<And>c. invoke c ?g1 = invoke' c ?g1" .
  then show ?thesis
    by (simp add: runControllers_body_def Let_def split: sum.splits)
qed

lemma runControllers_loop_cong:
  assumes "\<And>c h. map_of (runningControllersMap h) ctx = Some True \<Longrightarrow> invoke c h = invoke' c h"
  shows "runControllers_loop invoke ctx iter g = runControllers_loop invoke' ctx iter g"
proof (induction "101 - iter" arbitrary: iter g)
  case 0
  then have "100 < iter" by simp
  then show ?case by (simp add: runControllers_loop_over)
next
  case (Suc k)
  then have le: "iter \<le> 100" and k: "k = 101 - Suc iter" by simp_all
  note b = runControllers_body_cong [of ctx invoke invoke' g, OF assms]
  show ?case
    by (simp add: runControllers_loop_body [OF le] b Suc.hyps(1) [OF k]
        split: prod.splits sum.splits)
qed

lemma runControllers_reentrant:
  assumes "map_of (runningControllersMap g) ctx = Some False"
    and "map_of (rootControllerMap g) ctx = Some c"
  shows "runControllers (invoke_reentrant inner ctx) ctx g =
           (Some (Error ''Re-entrant call detected''),
            g\<lparr>runningControllersMap :=
                AList.update ctx False (AList.update ctx True (runningControllersMap g))\<rparr>)"
proof -
  let ?g1 = "g\<lparr>runningControllersMap := AList.update ctx True (runningControllersMap g)\<rparr>"
  have n: "runControllers inner ctx ?g1 = (Some (Error ''Re-entrant call detected''), ?g1)"
    by (simp add: runControllers_def update_conv')
  have b: "runControllers_body (invoke_reentrant inner ctx) ctx g =
      (Inl (Error ''Re-entrant call detected''),
       g\<lparr>runningControllersMap :=
           AList.update ctx False (AList.update ctx True (runningControllersMap g))\<rparr>)"
    using assms(2) by (simp add: runControllers_body_def Let_def assertExists_def
        invoke_reentrant_def n)
  show ?thesis
    using assms(1) by (simp add: runControllers_def runControllers_loop_body b)
qed

text \<open>
  Claim C8. \<open>runControllers\<close> always returns. Called for a context that has no running
  flag, it throws \<open>'Unknown controller'\<close>; called while the controllers of the context
  are running, it throws \<open>'Re-entrant call detected'\<close>; both change nothing. Otherwise it
  runs the root controller until \<open>invoke()\<close> returns false: when run number \<open>n\<close> (from 0,
  with \<open>n \<le> 100\<close>) is the first not to return true, it returns after those \<open>n + 1\<close> runs,
  or throws the error of that run if that run throws, with the running flag reset.
  When the first 101 runs all return true, it throws
  \<open>'Controllers are stuck in a livelock'\<close> after those 101 runs.

  While \<open>invoke()\<close> runs, the flag is set. The loop calls \<open>invoke\<close> in no module but one
  whose flag for the context is set: two controllers that behave alike in such modules
  give the same run. And a controller that calls \<open>runControllers\<close> for its own context
  from \<open>invoke()\<close> gets \<open>'Re-entrant call detected'\<close> from that call, whatever it would
  do in the nested run; uncaught, the error ends the outer run, which resets the flag.
\<close>

theorem runControllers_until_quiescence_or_livelock:
  "(map_of (runningControllersMap g) ctx = None \<longrightarrow>
      runControllers invoke ctx g = (Some (Error ''Unknown controller''), g)) \<and>
   (map_of (runningControllersMap g) ctx = Some True \<longrightarrow>
      runControllers invoke ctx g = (Some (Error ''Re-entrant call detected''), g)) \<and>
   (map_of (runningControllersMap g) ctx = Some False \<longrightarrow>
      (\<forall>n\<le>100. invoke_result invoke ctx n g = Inr False \<and>
                (\<forall>m<n. invoke_result invoke ctx m g = Inr True) \<longrightarrow>
         runControllers invoke ctx g = (None, invoked invoke ctx (Suc n) g) \<and>
         map_of (runningControllersMap (invoked invoke ctx (Suc n) g)) ctx = Some False) \<and>
      (\<forall>n\<le>100. \<forall>err. invoke_result invoke ctx n g = Inl err \<and>
                (\<forall>m<n. invoke_result invoke ctx m g = Inr True) \<longrightarrow>
         runControllers invoke ctx g = (Some err, invoked invoke ctx (Suc n) g) \<and>
         map_of (runningControllersMap (invoked invoke ctx (Suc n) g)) ctx = Some False) \<and>
      ((\<forall>m\<le>100. invoke_result invoke ctx m g = Inr True) \<longrightarrow>
         runControllers invoke ctx g =
           (Some (Error ''Controllers are stuck in a livelock''), invoked invoke ctx 101 g) \<and>
         map_of (runningControllersMap (invoked invoke ctx 101 g)) ctx = Some False) \<and>
      ((\<forall>c h. map_of (runningControllersMap h) ctx = Some True \<longrightarrow> invoke c h = invoke' c h) \<longrightarrow>
         runControllers invoke ctx g = runControllers invoke' ctx g) \<and>
      (map_of (rootControllerMap g) ctx = Some c \<longrightarrow>
         runControllers (invoke_reentrant inner ctx) ctx g =
           (Some (Error ''Re-entrant call detected''),
            g\<lparr>runningControllersMap :=
                AList.update ctx False (AList.update ctx True (runningControllersMap g))\<rparr>)))"
proof (intro conjI impI allI)
  assume "map_of (runningControllersMap g) ctx = None"
  then show "runControllers invoke ctx g = (Some (Error ''Unknown controller''), g)"
    by (simp add: runControllers_def)
next
  assume "map_of (runningControllersMap g) ctx = Some True"
  then show "runControllers invoke ctx g = (Some (Error ''Re-entrant call detected''), g)"
    by (simp add: runControllers_def)
next
  fix n
  assume h: "map_of (runningControllersMap g) ctx = Some False"
    and n: "n \<le> 100"
    and q: "invoke_result invoke ctx n g = Inr False \<and>
            (\<forall>m<n. invoke_result invoke ctx m g = Inr True)"
  from h have run: "runControllers invoke ctx g = runControllers_loop invoke ctx 0 g"
    by (simp add: runControllers_def)
  from runControllers_loop_stops [of 0 n invoke ctx g "Inr False"] n q
  show "runControllers invoke ctx g = (None, invoked invoke ctx (Suc n) g)"
    by (simp add: run)
next
  fix n err
  assume h: "map_of (runningControllersMap g) ctx = Some False"
    and n: "n \<le> 100"
    and q: "invoke_result invoke ctx n g = Inl err \<and>
            (\<forall>m<n. invoke_result invoke ctx m g = Inr True)"
  from h have run: "runControllers invoke ctx g = runControllers_loop invoke ctx 0 g"
    by (simp add: runControllers_def)
  from runControllers_loop_stops [of 0 n invoke ctx g "Inl err"] n q
  show "runControllers invoke ctx g = (Some err, invoked invoke ctx (Suc n) g)"
    by (simp add: run)
next
  assume h: "map_of (runningControllersMap g) ctx = Some False"
    and q: "\<forall>m\<le>100. invoke_result invoke ctx m g = Inr True"
  from h have run: "runControllers invoke ctx g = runControllers_loop invoke ctx 0 g"
    by (simp add: runControllers_def)
  from runControllers_loop_livelock [of 0 invoke ctx g] q
  show "runControllers invoke ctx g =
      (Some (Error ''Controllers are stuck in a livelock''), invoked invoke ctx 101 g)"
    by (simp add: run)
next
  assume h: "map_of (runningControllersMap g) ctx = Some False"
    and q: "\<forall>c h. map_of (runningControllersMap h) ctx = Some True \<longrightarrow> invoke c h = invoke' c h"
  from q have "\<And>c h. map_of (runningControllersMap h) ctx = Some True \<Longrightarrow> invoke c h = invoke' c h"
    by blast
  from runControllers_loop_cong [of ctx invoke invoke', OF this] h
  show "runControllers invoke ctx g = runControllers invoke' ctx g"
    by (simp add: runControllers_def)
next
  assume "map_of (runningControllersMap g) ctx = Some False"
    and "map_of (rootControllerMap g) ctx = Some c"
  then show "runControllers (invoke_reentrant inner ctx) ctx g =
      (Some (Error ''Re-entrant call detected''),
       g\<lparr>runningControllersMap :=
           AList.update ctx False (AList.update ctx True (runningControllersMap g))\<rparr>)"
    by (rule runControllers_reentrant)
qed (simp_all only: invoked_resets eval_nat_numeral)

lemma body_thrice:
  "runControllers_body invoke_thrice ''ui'' (controllers_at c) = (Inr (c < 2), controllers_at (Suc c))"
  by (simp add: runControllers_body_def invoke_thrice_def controllers_at_def assertExists_def
      Let_def)

lemma body_forever:
  "runControllers_body invoke_forever ''ui'' (controllers_at c) = (Inr True, controllers_at (Suc c))"
  by (simp add: runControllers_body_def invoke_forever_def controllers_at_def assertExists_def
      Let_def)

lemma invoked_thrice: "invoked invoke_thrice ''ui'' n (controllers_at c) = controllers_at (c + n)"
  by (induction n arbitrary: c) (simp_all add: body_thrice)

lemma invoked_forever: "invoked invoke_forever ''ui'' n (controllers_at c) = controllers_at (c + n)"
  by (induction n arbitrary: c) (simp_all add: body_forever)

text \<open>
  A root controller that asks to run again twice is invoked three times; one that
  always asks is invoked 101 times before the livelock error; a call while the flag of
  the context is set throws. The controller that throws unless it finds the flag set
  runs as the first does. The controller that calls \<open>runControllers\<close> from \<open>invoke()\<close>
  throws \<open>'Re-entrant call detected'\<close> in its first run, which ends the outer call with
  that error.
\<close>

theorem runControllers_until_quiescence_or_livelock_witness:
  "map_of (runningControllersMap controllers_running) ''ui'' = Some True \<and>
   map_of (runningControllersMap controllers_idle) ''ui'' = Some False \<and>
   map_of (rootControllerMap controllers_idle) ''ui'' = Some 0 \<and>
   (2::nat) \<le> 100 \<and> invoke_result invoke_thrice ''ui'' 2 controllers_idle = Inr False \<and>
   invoke_result invoke_thrice ''ui'' 0 controllers_idle = Inr True \<and>
   invoke_result invoke_thrice ''ui'' 1 controllers_idle = Inr True \<and>
   list_all (\<lambda>m. invoke_result invoke_forever ''ui'' m controllers_idle = Inr True) [0..<101] \<and>
   invoke_result (invoke_reentrant invoke_thrice ''ui'') ''ui'' 0 controllers_idle =
     Inl (Error ''Re-entrant call detected'') \<and>
   map_of (runningControllersMap controllers_idle) ''other'' = None \<and>
   runControllers invoke_thrice ''other'' controllers_idle =
     (Some (Error ''Unknown controller''), controllers_idle) \<and>
   runControllers invoke_thrice ''ui'' controllers_running =
     (Some (Error ''Re-entrant call detected''), controllers_running) \<and>
   runControllers invoke_thrice ''ui'' controllers_idle = (None, controllers_at 3) \<and>
   runControllers invoke_forever ''ui'' controllers_idle =
     (Some (Error ''Controllers are stuck in a livelock''), controllers_at 101) \<and>
   runControllers invoke_if_running ''ui'' controllers_idle = (None, controllers_at 3) \<and>
   runControllers (invoke_reentrant invoke_thrice ''ui'') ''ui'' controllers_idle =
     (Some (Error ''Re-entrant call detected''), controllers_idle)"
proof -
  note T = runControllers_until_quiescence_or_livelock
  have h1: "map_of (runningControllersMap controllers_running) ''ui'' = Some True"
    by (simp add: controllers_running_def)
  have h2: "map_of (runningControllersMap controllers_idle) ''ui'' = Some False"
    and h3: "map_of (rootControllerMap controllers_idle) ''ui'' = Some 0"
    by (simp_all add: controllers_idle_def controllers_at_def)
  have h4: "invoke_result invoke_thrice ''ui'' 2 controllers_idle = Inr False"
    by (simp add: invoke_result_def controllers_idle_def invoked_thrice body_thrice)
  have h5: "\<forall>m<2. invoke_result invoke_thrice ''ui'' m controllers_idle = Inr True"
    by (simp add: invoke_result_def controllers_idle_def invoked_thrice body_thrice)
  have h6: "\<forall>m\<le>100. invoke_result invoke_forever ''ui'' m controllers_idle = Inr True"
    by (simp add: invoke_result_def controllers_idle_def invoked_forever body_forever)
  have h7: "\<forall>c h. map_of (runningControllersMap h) ''ui'' = Some True \<longrightarrow>
      invoke_if_running c h = invoke_thrice c h"
    by (simp add: invoke_if_running_def)
  from T [of controllers_running "''ui''" invoke_thrice] h1
  have a: "runControllers invoke_thrice ''ui'' controllers_running =
     (Some (Error ''Re-entrant call detected''), controllers_running)"
    by blast
  have h0: "map_of (runningControllersMap controllers_idle) ''other'' = None"
    by (simp add: controllers_idle_def controllers_at_def)
  from T [of controllers_idle "''other''" invoke_thrice] h0
  have u: "runControllers invoke_thrice ''other'' controllers_idle =
     (Some (Error ''Unknown controller''), controllers_idle)"
    by blast
  have le: "(2::nat) \<le> 100" by simp
  from T [of controllers_idle "''ui''" invoke_thrice] h2
  have every: "\<forall>n\<le>100. invoke_result invoke_thrice ''ui'' n controllers_idle = Inr False \<and>
                (\<forall>m<n. invoke_result invoke_thrice ''ui'' m controllers_idle = Inr True) \<longrightarrow>
         runControllers invoke_thrice ''ui'' controllers_idle =
           (None, invoked invoke_thrice ''ui'' (Suc n) controllers_idle) \<and>
         map_of (runningControllersMap (invoked invoke_thrice ''ui'' (Suc n) controllers_idle))
           ''ui'' = Some False"
    by blast
  from every [rule_format, of 2] le h4 h5
  have "runControllers invoke_thrice ''ui'' controllers_idle =
      (None, invoked invoke_thrice ''ui'' (Suc 2) controllers_idle)"
    by blast
  then have b: "runControllers invoke_thrice ''ui'' controllers_idle = (None, controllers_at 3)"
    by (simp add: controllers_idle_def invoked_thrice)
  from T [of controllers_idle "''ui''" invoke_forever] h2 h6
  have "runControllers invoke_forever ''ui'' controllers_idle =
      (Some (Error ''Controllers are stuck in a livelock''),
       invoked invoke_forever ''ui'' 101 controllers_idle)"
    by blast
  then have c: "runControllers invoke_forever ''ui'' controllers_idle =
      (Some (Error ''Controllers are stuck in a livelock''), controllers_at 101)"
    by (simp add: controllers_idle_def invoked_forever)
  from T [of controllers_idle "''ui''" invoke_if_running invoke_thrice] h2 h7
  have "runControllers invoke_if_running ''ui'' controllers_idle =
      runControllers invoke_thrice ''ui'' controllers_idle"
    by blast
  with b have d: "runControllers invoke_if_running ''ui'' controllers_idle = (None, controllers_at 3)"
    by simp
  from T [of controllers_idle "''ui''" invoke_thrice invoke_thrice 0 invoke_thrice] h2 h3
  have "runControllers (invoke_reentrant invoke_thrice ''ui'') ''ui'' controllers_idle =
      (Some (Error ''Re-entrant call detected''),
       controllers_idle\<lparr>runningControllersMap :=
         AList.update ''ui'' False
           (AList.update ''ui'' True (runningControllersMap controllers_idle))\<rparr>)"
    by blast
  then have e: "runControllers (invoke_reentrant invoke_thrice ''ui'') ''ui'' controllers_idle =
      (Some (Error ''Re-entrant call detected''), controllers_idle)"
    by (simp add: controllers_idle_def controllers_at_def)
  have f: "invoke_result (invoke_reentrant invoke_thrice ''ui'') ''ui'' 0 controllers_idle =
     Inl (Error ''Re-entrant call detected'')"
    by (simp add: invoke_result_def runControllers_body_def invoke_reentrant_def
        runControllers_def controllers_idle_def controllers_at_def assertExists_def Let_def)
  have h8: "invoke_result invoke_thrice ''ui'' 0 controllers_idle = Inr True"
    "invoke_result invoke_thrice ''ui'' 1 controllers_idle = Inr True"
    using h5 by simp_all
  have h9: "list_all (\<lambda>m. invoke_result invoke_forever ''ui'' m controllers_idle = Inr True)
      [0..<101]"
    using h6 by (simp add: list_all_iff)
  from h0 u h1 h2 h3 le h4 h8 h9 f a b c d e show ?thesis
    by simp
qed

end
